theory Spec2Isabelle
  imports Complex_Main "HOL-Library.Word" "HOL-Library.Multiset"
begin

section \<open>JavaScript strings\<close>

text \<open>
  A JavaScript string is a sequence of UTF-16 code units, and every string operation the
  two pipelines use (\<^verbatim>\<open>trim\<close>, \<^verbatim>\<open>startsWith\<close>, \<^verbatim>\<open>substring\<close>, \<^verbatim>\<open>slice\<close>, \<^verbatim>\<open>split\<close>,
  \<^verbatim>\<open>replace\<close>, the regular expressions without the \<^verbatim>\<open>u\<close> flag) works on code units.
  The function \<open>js\<close> turns an ASCII literal of the source into its code units.
\<close>

type_synonym jsstring = "16 word list"

definition js :: "string \<Rightarrow> jsstring" where
  "js s = map (\<lambda>c. of_nat (of_char c)) s"

text \<open>
  \<^verbatim>\<open>String.prototype.trim\<close> removes the code units of ECMAScript's WhiteSpace and
  LineTerminator productions from both ends.
\<close>

definition is_js_space :: "16 word \<Rightarrow> bool" where
  "is_js_space c \<longleftrightarrow>
     c \<in> {0x0009, 0x000A, 0x000B, 0x000C, 0x000D, 0x0020, 0x00A0, 0x1680,
          0x2000, 0x2001, 0x2002, 0x2003, 0x2004, 0x2005, 0x2006, 0x2007, 0x2008,
          0x2009, 0x200A, 0x2028, 0x2029, 0x202F, 0x205F, 0x3000, 0xFEFF}"

definition trim :: "jsstring \<Rightarrow> jsstring" where
  "trim s = rev (dropWhile is_js_space (rev (dropWhile is_js_space s)))"

definition startsWith :: "jsstring \<Rightarrow> jsstring \<Rightarrow> bool" where
  "startsWith s p \<longleftrightarrow> take (length p) s = p"

text \<open>The decimal rendering of a non-negative integer inside a template literal.\<close>

fun decimal :: "nat \<Rightarrow> jsstring" where
  "decimal n =
     (if n < 10 then [of_nat (48 + n)]
      else decimal (n div 10) @ [of_nat (48 + n mod 10)])"

declare decimal.simps [simp del]

section \<open>Pipeline A: the link extractor\<close>

record ArticleItem =
  title :: jsstring
  link :: jsstring

definition LBRACKET :: "16 word" where "LBRACKET = 0x5B"
definition RBRACKET :: "16 word" where "RBRACKET = 0x5D"
definition LPAREN :: "16 word" where "LPAREN = 0x28"
definition RPAREN :: "16 word" where "RPAREN = 0x29"

text \<open>
  The regular expression of \<^verbatim>\<open>parseMarkdownLinks\<close> is
  \<^verbatim>\<open>/\[([^\]]+)\]\(([^)]+)\)/g\<close>. \<open>link_pattern_at s\<close> matches it at the start of
  \<open>s\<close> and returns the two capture groups and the length of the match. Both groups are
  greedy runs of a negated class that are followed by the one code unit the class excludes,
  so backtracking never finds a match that the longest run misses: the first group is the
  longest run without a closing bracket, the second the longest run without a closing
  parenthesis (lemmas \<open>link_pattern_at_SomeD\<close> and \<open>link_pattern_at_shape\<close> below relate
  the matcher to the language of the expression).
\<close>

definition link_pattern_at :: "jsstring \<Rightarrow> (jsstring \<times> jsstring \<times> nat) option" where
  "link_pattern_at s =
     (case s of
        [] \<Rightarrow> None
      | c # r \<Rightarrow>
          if c \<noteq> LBRACKET then None
          else
            let g1 = takeWhile (\<lambda>x. x \<noteq> RBRACKET) r;
                r1 = dropWhile (\<lambda>x. x \<noteq> RBRACKET) r
            in if g1 = [] then None
               else (case r1 of
                       b # p # r2 \<Rightarrow>
                         if b = RBRACKET \<and> p = LPAREN then
                           let g2 = takeWhile (\<lambda>x. x \<noteq> RPAREN) r2;
                               r3 = dropWhile (\<lambda>x. x \<noteq> RPAREN) r2
                           in if g2 = [] then None
                              else (case r3 of
                                      [] \<Rightarrow> None
                                    | q # _ \<Rightarrow>
                                        if q = RPAREN
                                        then Some (g1, g2, length g1 + length g2 + 4)
                                        else None)
                         else None
                     | _ \<Rightarrow> None))"

lemma link_pattern_at_Nil [simp]: "link_pattern_at [] = None"
  by (simp add: link_pattern_at_def)

lemma link_pattern_at_SomeD:
  assumes "link_pattern_at s = Some (g1, g2, n)"
  shows "\<exists>rest. s = LBRACKET # g1 @ RBRACKET # LPAREN # g2 @ RPAREN # rest"
    and "g1 \<noteq> []" and "RBRACKET \<notin> set g1"
    and "g2 \<noteq> []" and "RPAREN \<notin> set g2"
    and "n = length g1 + length g2 + 4"
proof -
  from assms obtain r where s: "s = LBRACKET # r"
    by (cases s) (auto simp: link_pattern_at_def split: if_splits)
  define r1 where "r1 = dropWhile (\<lambda>x. x \<noteq> RBRACKET) r"
  have r: "r = takeWhile (\<lambda>x. x \<noteq> RBRACKET) r @ r1"
    by (simp add: r1_def)
  from assms s obtain r2 where r1: "r1 = RBRACKET # LPAREN # r2"
    and g1: "g1 = takeWhile (\<lambda>x. x \<noteq> RBRACKET) r" "g1 \<noteq> []"
    and rest: "(let g2 = takeWhile (\<lambda>x. x \<noteq> RPAREN) r2;
                  r3 = dropWhile (\<lambda>x. x \<noteq> RPAREN) r2
              in if g2 = [] then None
                 else (case r3 of [] \<Rightarrow> None
                       | q # _ \<Rightarrow> if q = RPAREN then Some (g1, g2, length g1 + length g2 + 4) else None))
             = Some (g1, g2, n)"
    by (auto simp: link_pattern_at_def Let_def r1_def split: if_splits list.splits)
  define r3 where "r3 = dropWhile (\<lambda>x. x \<noteq> RPAREN) r2"
  have r2: "r2 = takeWhile (\<lambda>x. x \<noteq> RPAREN) r2 @ r3"
    by (simp add: r3_def)
  from rest obtain rest' where r3: "r3 = RPAREN # rest'"
    and g2: "g2 = takeWhile (\<lambda>x. x \<noteq> RPAREN) r2" "g2 \<noteq> []"
    and n: "n = length g1 + length g2 + 4"
    by (auto simp: Let_def r3_def split: if_splits list.splits)
  have "s = LBRACKET # g1 @ RBRACKET # LPAREN # g2 @ RPAREN # rest'"
    using s r r1 r2 r3 g1(1) g2(1) by metis
  then show "\<exists>rest. s = LBRACKET # g1 @ RBRACKET # LPAREN # g2 @ RPAREN # rest" ..
  show "g1 \<noteq> []" "g2 \<noteq> []" "n = length g1 + length g2 + 4" by fact+
  show "RBRACKET \<notin> set g1" unfolding g1(1) by (auto dest: set_takeWhileD)
  show "RPAREN \<notin> set g2" unfolding g2(1) by (auto dest: set_takeWhileD)
qed

lemma link_pattern_at_shape:
  assumes "g1 \<noteq> []" "RBRACKET \<notin> set g1" "g2 \<noteq> []" "RPAREN \<notin> set g2"
  shows "link_pattern_at (LBRACKET # g1 @ RBRACKET # LPAREN # g2 @ RPAREN # rest)
           = Some (g1, g2, length g1 + length g2 + 4)"
proof -
  have t1: "takeWhile (\<lambda>x. x \<noteq> RBRACKET) (g1 @ RBRACKET # LPAREN # g2 @ RPAREN # rest) = g1"
    using assms(2) by (auto simp: takeWhile_tail)
  have d1: "dropWhile (\<lambda>x. x \<noteq> RBRACKET) (g1 @ RBRACKET # LPAREN # g2 @ RPAREN # rest)
              = RBRACKET # LPAREN # g2 @ RPAREN # rest"
    using assms(2) by (auto simp: dropWhile_append3)
  have t2: "takeWhile (\<lambda>x. x \<noteq> RPAREN) (g2 @ RPAREN # rest) = g2"
    using assms(4) by (auto simp: takeWhile_tail)
  have d2: "dropWhile (\<lambda>x. x \<noteq> RPAREN) (g2 @ RPAREN # rest) = RPAREN # rest"
    using assms(4) by (auto simp: dropWhile_append3)
  show ?thesis
    using assms(1,3) by (simp add: link_pattern_at_def t1 d1 t2 d2)
qed

lemma link_pattern_at_len:
  assumes "link_pattern_at s = Some (g1, g2, n)"
  shows "0 < n \<and> n \<le> length s"
proof -
  from link_pattern_at_SomeD(1)[OF assms] obtain rest
    where "s = LBRACKET # g1 @ RBRACKET # LPAREN # g2 @ RPAREN # rest" ..
  then have "length s = length g1 + length g2 + 4 + length rest" by simp
  with link_pattern_at_SomeD(6)[OF assms] show ?thesis by simp
qed

text \<open>
  \<^verbatim>\<open>regex.exec(content)\<close> on a global expression starts at the expression's
  \<^verbatim>\<open>lastIndex\<close>, tries every start position from there to the end of the string, and
  on a match sets \<^verbatim>\<open>lastIndex\<close> to the end of the match; when nothing matches it
  returns \<^verbatim>\<open>null\<close> and resets \<^verbatim>\<open>lastIndex\<close> to 0.
\<close>

function regex_search :: "jsstring \<Rightarrow> nat \<Rightarrow> (nat \<times> jsstring \<times> jsstring \<times> nat) option" where
  "regex_search s i =
     (if length s < i then None
      else (case link_pattern_at (drop i s) of
              Some (g1, g2, n) \<Rightarrow> Some (i, g1, g2, n)
            | None \<Rightarrow> regex_search s (Suc i)))"
  by pat_completeness auto
termination
  by (relation "measure (\<lambda>(s, i). Suc (length s) - i)") auto

declare regex_search.simps [simp del]

definition regex_exec :: "jsstring \<Rightarrow> nat \<Rightarrow> (jsstring \<times> jsstring) option \<times> nat" where
  "regex_exec s lastIndex =
     (case regex_search s lastIndex of
        None \<Rightarrow> (None, 0)
      | Some (i, g1, g2, n) \<Rightarrow> (Some (g1, g2), i + n))"

lemma regex_search_bounds:
  "regex_search s i = Some (j, g1, g2, n) \<Longrightarrow> i \<le> j \<and> 0 < n \<and> j + n \<le> length s"
proof (induction s i rule: regex_search.induct)
  case (1 s i)
  show ?case
  proof (cases "length s < i")
    case True
    with "1.prems" show ?thesis by (simp add: regex_search.simps)
  next
    case False
    show ?thesis
    proof (cases "link_pattern_at (drop i s)")
      case None
      with False "1.prems" have "regex_search s (Suc i) = Some (j, g1, g2, n)"
        by (simp add: regex_search.simps[of s i])
      with "1.IH"[OF False None] show ?thesis by simp
    next
      case (Some m)
      obtain a b c where m: "m = (a, b, c)" by (cases m)
      with Some False "1.prems" have eq: "j = i" "g1 = a" "g2 = b" "n = c"
        by (simp_all add: regex_search.simps[of s i])
      from link_pattern_at_len[of "drop i s" a b c] Some m
      have "0 < c \<and> c \<le> length s - i" by simp
      with eq False show ?thesis by auto
    qed
  qed
qed

text \<open>
  The body of the \<^verbatim>\<open>while\<close> loop: both groups are trimmed, and the item is pushed
  only when \<^verbatim>\<open>title && link && link.startsWith('http')\<close> holds (an empty string is
  falsy).
\<close>

definition push_item :: "jsstring \<times> jsstring \<Rightarrow> ArticleItem list \<Rightarrow> ArticleItem list" where
  "push_item m items =
     (let t = trim (fst m); l = trim (snd m)
      in if t \<noteq> [] \<and> l \<noteq> [] \<and> startsWith l (js ''http'')
         then items @ [\<lparr>title = t, link = l\<rparr>] else items)"

text \<open>
  The loop \<^verbatim>\<open>while ((match = regex.exec(content)) !== null)\<close>, with the expression's
  \<^verbatim>\<open>lastIndex\<close> and the array \<^verbatim>\<open>items\<close> as its state. It returns the items and the
  \<^verbatim>\<open>lastIndex\<close> the expression is left with.
\<close>

function parse_loop :: "jsstring \<Rightarrow> nat \<Rightarrow> ArticleItem list \<Rightarrow> ArticleItem list \<times> nat" where
  "parse_loop content lastIndex items =
     (case regex_exec content lastIndex of
        (None, li) \<Rightarrow> (items, li)
      | (Some m, li) \<Rightarrow> parse_loop content li (push_item m items))"
  by pat_completeness auto
termination
  apply (relation "measure (\<lambda>(c, i, _). Suc (length c) - i)")
   apply simp
  apply (auto simp: regex_exec_def split: option.splits dest!: regex_search_bounds)
  done

declare parse_loop.simps [simp del]

text \<open>The expression literal is evaluated on every call, so each call starts at index 0.\<close>

definition parseMarkdownLinks :: "jsstring \<Rightarrow> ArticleItem list" where
  "parseMarkdownLinks content = fst (parse_loop content 0 [])"

text \<open>
  The specification's reading of the extractor, for comparison with the loop: the
  \<^verbatim>\<open>[Title](URL)\<close> occurrences of a text are found scanning from the left; where one
  starts it is taken and the scan resumes behind it, otherwise the scan moves one code unit
  on. An occurrence yields an item when its trimmed title and link are non-empty and the
  trimmed link starts with \<^verbatim>\<open>http\<close>.
\<close>

function link_occurrences :: "jsstring \<Rightarrow> (jsstring \<times> jsstring) list" where
  "link_occurrences [] = []"
| "link_occurrences (c # r) =
     (case link_pattern_at (c # r) of
        Some (g1, g2, n) \<Rightarrow> (g1, g2) # link_occurrences (drop n (c # r))
      | None \<Rightarrow> link_occurrences r)"
  by pat_completeness auto
termination
  apply (relation "measure length")
    apply simp
   apply (auto dest!: link_pattern_at_len)
  done

declare link_occurrences.simps(2) [simp del]

definition emits :: "jsstring \<times> jsstring \<Rightarrow> bool" where
  "emits m \<longleftrightarrow>
     trim (fst m) \<noteq> [] \<and> trim (snd m) \<noteq> [] \<and> startsWith (trim (snd m)) (js ''http'')"

definition to_item :: "jsstring \<times> jsstring \<Rightarrow> ArticleItem" where
  "to_item m = \<lparr>title = trim (fst m), link = trim (snd m)\<rparr>"

section \<open>Values, errors and the outside world\<close>

text \<open>
  A thrown value is an \<^verbatim>\<open>Error\<close> the code constructs itself, the \<^verbatim>\<open>TypeError\<close> of a
  property read on \<^verbatim>\<open>undefined\<close>, or an exception raised inside a library or the
  operating system (opaque, told apart by a tag). A function that may throw, or an
  \<^verbatim>\<open>async\<close> function that may reject, returns a sum with the thrown value on the left.
\<close>

datatype js_error = Error jsstring | TypeError | Thrown nat

text \<open>
  The result of the model call is read through an \<^verbatim>\<open>any\<close> cast, so what the
  generators return is a string or \<^verbatim>\<open>undefined\<close>; \<open>String\<close> is its rendering in a
  template literal.
\<close>

datatype js_value = Undefined | Str jsstring

definition String :: "js_value \<Rightarrow> jsstring" where
  "String v = (case v of Str s \<Rightarrow> s | Undefined \<Rightarrow> js ''undefined'')"

text \<open>
  The response of \<^verbatim>\<open>fetch\<close>; \<open>response_text\<close> is what \<^verbatim>\<open>await response.text()\<close>
  gives.
\<close>

record http_response =
  ok :: bool
  status :: nat
  statusText :: jsstring
  response_text :: "js_error + jsstring"

text \<open>
  What \<^verbatim>\<open>new Readability(dom.window.document).parse()\<close> returns: \<^verbatim>\<open>null\<close>, or an
  article whose \<^verbatim>\<open>textContent\<close> may be missing.
\<close>

datatype parsed_article = NullArticle | Article "jsstring option"

text \<open>
  A segment of the model's reply: a text segment carries a \<^verbatim>\<open>text\<close> property, every
  other kind of segment has none.
\<close>

datatype content_block = TextBlock jsstring | NonTextBlock

record api_request =
  model :: jsstring
  max_tokens :: nat
  temperature :: rat
  system :: jsstring
  user_message :: jsstring

record child_item =
  left_item_span_text :: jsstring
  medium_txt_a_text :: jsstring
  medium_txt_a_href :: "jsstring option"
  small_txt_text :: jsstring

record HotItem =
  rank :: jsstring
  item_title :: jsstring
  item_link :: jsstring
  hot :: jsstring
  source :: jsstring

text \<open>
  The directories of the two modules. \<^verbatim>\<open>path.join(DIR, name)\<close> with a name that has no
  separator is the pair of the directory and the name, and \<^verbatim>\<open>path.basename\<close> is the
  second component.
\<close>

datatype directory = INPUT_DIR | OUTPUT_DIR | ARCHIVE_DIR | TRENDS_DIR

type_synonym path = "directory \<times> jsstring"

text \<open>
  Everything a module reads from its configuration and from the outside world: the mock
  flag; the HTTP transport; JSDOM with Readability (applied to the page and its URL); the
  model endpoint; the clock, as the ISO and locale renderings of the \<^verbatim>\<open>new Date()\<close> of
  the task with a given index (Pipeline B's single run reads index 0) and the
  \<^verbatim>\<open>Date.now()\<close> of the archival; the errors the file system raises on reading, writing
  and renaming; the exit code of the verification command (\<open>None\<close> when a signal ended it);
  the order in which the scheduler lets the tasks of a batch run; and, for Pipeline B,
  the text fields cheerio selects from the \<^verbatim>\<open>.child-item\<close> nodes of a page in document
  order, and \<^verbatim>\<open>JSON.stringify(items, null, 2)\<close>.
\<close>

record env =
  MOCK_MODE :: bool
  http_fetch :: "jsstring \<Rightarrow> js_error + http_response"
  readability_parse :: "jsstring \<Rightarrow> jsstring \<Rightarrow> js_error + parsed_article"
  messages_create :: "api_request \<Rightarrow> js_error + content_block list"
  iso_time :: "nat \<Rightarrow> jsstring"
  locale_time :: "nat \<Rightarrow> jsstring"
  date_now :: nat
  read_error :: "path \<Rightarrow> js_error option"
  write_error :: "path \<Rightarrow> js_error option"
  rename_error :: "path \<Rightarrow> js_error option"
  verify_exit :: "nat option"
  schedule :: "(nat \<times> ArticleItem) list \<Rightarrow> (nat \<times> ArticleItem) list"
  child_items :: "jsstring \<Rightarrow> child_item list"
  json_stringify :: "HotItem list \<Rightarrow> jsstring"

text \<open>
  The lines written to the console, one constructor for each \<^verbatim>\<open>console.log\<close> and
  \<^verbatim>\<open>console.error\<close> of the functions modelled, with the values the line interpolates.
\<close>

datatype log_event =
    LogFetching jsstring
  | LogFetchError jsstring js_error
  | LogGenerating jsstring
  | LogVerifyTriggered
  | LogVerifyCompleted
  | LogVerifyFailed "nat option"
  | LogProcessing jsstring
  | LogNoValidLinks jsstring
  | LogFound nat
  | LogTask nat nat jsstring
  | LogSkipping jsstring
  | LogSaved path
  | LogTaskFailed jsstring js_error
  | LogArchived path
  | LogFileFailed jsstring js_error
  | LogFetchingTophub
  | LogFetched nat
  | LogSavedRaw path
  | LogAnalyzing
  | LogSavedReport path
  | LogRunFailed js_error

datatype net_call = HttpGet jsstring | ModelCall api_request

text \<open>
  The state the code acts on: the files of the four directories, the console, the network
  calls issued so far, and the number of times the verification command was spawned.
\<close>

record world =
  files :: "path \<rightharpoonup> jsstring"
  console :: "log_event list"
  network :: "net_call list"
  spawned :: nat

definition console_log :: "log_event \<Rightarrow> world \<Rightarrow> world" where
  "console_log e w = w\<lparr>console := console w @ [e]\<rparr>"

definition ENOENT :: js_error where
  "ENOENT = Thrown 2"

definition readFileSync :: "env \<Rightarrow> path \<Rightarrow> world \<Rightarrow> js_error + jsstring" where
  "readFileSync env p w =
     (case read_error env p of
        Some e \<Rightarrow> Inl e
      | None \<Rightarrow> (case files w p of None \<Rightarrow> Inl ENOENT | Some d \<Rightarrow> Inr d))"

definition writeFileSync :: "env \<Rightarrow> path \<Rightarrow> jsstring \<Rightarrow> world \<Rightarrow> js_error + world" where
  "writeFileSync env p d w =
     (case write_error env p of
        Some e \<Rightarrow> Inl e
      | None \<Rightarrow> Inr (w\<lparr>files := (files w)(p \<mapsto> d)\<rparr>))"

definition renameSync :: "env \<Rightarrow> path \<Rightarrow> path \<Rightarrow> world \<Rightarrow> js_error + world" where
  "renameSync env src dst w =
     (case rename_error env src of
        Some e \<Rightarrow> Inl e
      | None \<Rightarrow>
          (case files w src of
             None \<Rightarrow> Inl ENOENT
           | Some d \<Rightarrow> Inr (w\<lparr>files := ((files w)(src := None))(dst \<mapsto> d)\<rparr>)))"

section \<open>Pipeline A: the article fetcher\<close>

text \<open>
  The \<^verbatim>\<open>try\<close> block of \<^verbatim>\<open>fetchArticleContent\<close>: every \<^verbatim>\<open>throw\<close> of the block and
  every exception of the transport, of \<^verbatim>\<open>response.text()\<close>, of JSDOM and of
  Readability is a left result. \<^verbatim>\<open>!article.textContent\<close> holds for a missing and for an
  empty text.
\<close>

definition fetch_try :: "env \<Rightarrow> jsstring \<Rightarrow> js_error + jsstring" where
  "fetch_try env url =
     (case http_fetch env url of
        Inl e \<Rightarrow> Inl e
      | Inr response \<Rightarrow>
          if \<not> ok response then Inl (Error (js ''Failed to fetch: '' @ statusText response))
          else (case response_text response of
                  Inl e \<Rightarrow> Inl e
                | Inr html \<Rightarrow>
                    (case readability_parse env html url of
                       Inl e \<Rightarrow> Inl e
                     | Inr NullArticle \<Rightarrow> Inl (Error (js ''Failed to parse article content''))
                     | Inr (Article None) \<Rightarrow> Inl (Error (js ''Failed to parse article content''))
                     | Inr (Article (Some t)) \<Rightarrow>
                         if t = [] then Inl (Error (js ''Failed to parse article content''))
                         else Inr (take 15000 (trim t)))))"

definition fetch_sentinel :: "jsstring \<Rightarrow> jsstring" where
  "fetch_sentinel url = js ''[Failed to fetch content from '' @ url @ js '']''"

text \<open>
  \<^verbatim>\<open>fetchArticleContent\<close>: the \<^verbatim>\<open>catch\<close> clause turns every left result of the block
  into the sentinel. The function is \<^verbatim>\<open>async\<close>, so its result type keeps the left
  summand of a rejection.
\<close>

definition fetchArticleContent :: "env \<Rightarrow> jsstring \<Rightarrow> world \<Rightarrow> world \<times> (js_error + jsstring)" where
  "fetchArticleContent env url w =
     (let w1 = console_log (LogFetching url) w;
          w2 = w1\<lparr>network := network w1 @ [HttpGet url]\<rparr>
      in case fetch_try env url of
           Inr excerpt \<Rightarrow> (w2, Inr excerpt)
         | Inl e \<Rightarrow> (console_log (LogFetchError url e) w2, Inr (fetch_sentinel url)))"

section \<open>Pipeline A: the content generator\<close>

definition DQUOTE :: "16 word" where "DQUOTE = 0x22"

text \<open>
  The prompt of \<^verbatim>\<open>generateContent\<close>, a template literal around the title (twice) and
  the first 8000 code units of the article. The three emoji are surrogate pairs.
\<close>

definition generation_prompt :: "jsstring \<Rightarrow> jsstring \<Rightarrow> jsstring" where
  "generation_prompt articleTitle articleContent =
     js ''\<newline>You are '' @ [DQUOTE] @ js ''Defou x Stanley'' @ [DQUOTE]
       @ js '', a top-tier content expert.\<newline>\<newline>''
     @ js ''**Task**: Rewrite the following article into a viral '' @ [DQUOTE]
       @ js ''Defou x Stanley'' @ [DQUOTE] @ js '' style post.\<newline>\<newline>''
     @ js ''**Source Article Title**: '' @ articleTitle @ js ''\<newline>''
     @ js ''**Source Article Content**: \<newline>''
     @ take 8000 articleContent @ js ''... (truncated)\<newline>\<newline>''
     @ js ''**Style Requirements**:\<newline>''
     @ js ''1.  **Insightful**: Peel back the layers to reveal the core essence.\<newline>''
     @ js ''2.  **Smart Routing**: Match the topic to T1 (Hotspot), T2 (Anti-Chicken Soup), T3 (Roast/Satire), or T4 (Dry Goods).\<newline>''
     @ js ''3.  **Minimalist & Sharp**: No fluff. Start with a reversal. Cold, restrained tone.\<newline>''
     @ js ''4.  **Structure**: Re-structure scattered thoughts into a logical flow.\<newline>\<newline>''
     @ js ''**Output Format (Markdown)**:\<newline>\<newline>''
     @ js ''# '' @ [0xD83D, 0xDE80] @ js '' Defou x Stanley Content Generation\<newline>\<newline>''
     @ js ''## 1. Routing & Strategy\<newline>''
     @ js ''* **Topic**: '' @ articleTitle @ js ''\<newline>''
     @ js ''* **Matched Template**: [T1/T2/T3/T4]\<newline>''
     @ js ''* **Angle**: [Selected Angle]\<newline>''
     @ js ''* **Reason**: [Why this angle?]\<newline>\<newline>''
     @ js ''---\<newline>\<newline>''
     @ js ''## 2. Content Drafting\<newline>\<newline>''
     @ js ''### '' @ [0xD83D, 0xDD25] @ js '' Version A: Stanley Style (Viral)\<newline>\<newline>''
     @ js ''> **Hooks**\<newline>> * [Hook 1]...\<newline>\<newline>''
     @ js ''**Body:**\<newline>\<newline>[Content here...]\<newline>\<newline>''
     @ js ''**Score:** [X]/100\<newline>\<newline>---\<newline>\<newline>''
     @ js ''### '' @ [0xD83E, 0xDDE0] @ js '' Version B: Defou Style (Deep Insight)\<newline>\<newline>''
     @ js ''> **Hooks**\<newline>> * [Hook 1]...\<newline>\<newline>''
     @ js ''**Body:**\<newline>\<newline>[Content here...]\<newline>\<newline>''
     @ js ''**Score:** [X]/100\<newline>\<newline>---\<newline>\<newline>''
     @ js ''## 3. Publishing Advice\<newline>''
     @ js ''* **Time**: [Time]\<newline>''
     @ js ''* **Reason**: [Reason]\<newline>''"

definition generation_request :: "jsstring \<Rightarrow> jsstring \<Rightarrow> api_request" where
  "generation_request articleTitle articleContent =
     \<lparr>model = js ''anthropic/claude-sonnet-4'', max_tokens = 4000, temperature = 7 / 10,
      system = js ''You are Defou x Stanley, a viral content expert.'',
      user_message = generation_prompt articleTitle articleContent\<rparr>"

text \<open>
  \<^verbatim>\<open>(msg.content[0] as any).text\<close>: reading \<^verbatim>\<open>text\<close> of the \<^verbatim>\<open>undefined\<close> that index 0
  of an empty array gives throws a \<^verbatim>\<open>TypeError\<close>; reading it of a segment that has no
  such property gives \<^verbatim>\<open>undefined\<close>.
\<close>

definition first_text :: "content_block list \<Rightarrow> js_error + js_value" where
  "first_text content =
     (case content of
        [] \<Rightarrow> Inl TypeError
      | TextBlock t # _ \<Rightarrow> Inr (Str t)
      | NonTextBlock # _ \<Rightarrow> Inr Undefined)"

definition generateContent ::
     "env \<Rightarrow> jsstring \<Rightarrow> jsstring \<Rightarrow> jsstring \<Rightarrow> world \<Rightarrow> world \<times> (js_error + js_value)" where
  "generateContent env articleTitle articleContent sourceLink w =
     (let w1 = console_log (LogGenerating articleTitle) w
      in if MOCK_MODE env
         then (w1, Inr (Str (js ''# Mock Content for '' @ articleTitle
                               @ js ''\<newline>\<newline>Generated in Mock Mode.'')))
         else
           let request = generation_request articleTitle articleContent;
               w2 = w1\<lparr>network := network w1 @ [ModelCall request]\<rparr>
           in (case messages_create env request of
                 Inl e \<Rightarrow> (w2, Inl e)
               | Inr content \<Rightarrow> (w2, first_text content)))"

section \<open>Pipeline A: the batch of one input file\<close>

text \<open>
  \<^verbatim>\<open>runVerifySkill\<close> spawns the verification command and resolves when it closes,
  whatever its exit code.
\<close>

definition runVerifySkill :: "env \<Rightarrow> world \<Rightarrow> world" where
  "runVerifySkill env w =
     (let w1 = console_log LogVerifyTriggered w;
          w2 = w1\<lparr>spawned := spawned w1 + 1\<rparr>
      in if verify_exit env = Some 0 then console_log LogVerifyCompleted w2
         else console_log (LogVerifyFailed (verify_exit env)) w2)"

text \<open>\<^verbatim>\<open>isoString.replace(/[:.]/g, '-')\<close>, used by both pipelines.\<close>

definition dashed :: "jsstring \<Rightarrow> jsstring" where
  "dashed isoString = map (\<lambda>c. if c = 0x3A \<or> c = 0x2E then 0x2D else c) isoString"

text \<open>
  The name of an output file: the ISO time with \<^verbatim>\<open>:\<close> and \<^verbatim>\<open>.\<close> replaced by
  \<^verbatim>\<open>-\<close>, cut to 19 code units (the second), and the title with every code unit
  outside \<^verbatim>\<open>a-z\<close>, \<^verbatim>\<open>0-9\<close> and the range U+4E00 to U+9FA5 (letters in either case,
  by the \<^verbatim>\<open>i\<close> flag) replaced by \<^verbatim>\<open>_\<close>, cut to 20 code units.
\<close>

definition date_str :: "jsstring \<Rightarrow> jsstring" where
  "date_str isoString = take 19 (dashed isoString)"

definition is_title_char :: "16 word \<Rightarrow> bool" where
  "is_title_char c \<longleftrightarrow>
     (0x61 \<le> c \<and> c \<le> 0x7A) \<or> (0x41 \<le> c \<and> c \<le> 0x5A) \<or> (0x30 \<le> c \<and> c \<le> 0x39)
     \<or> (0x4E00 \<le> c \<and> c \<le> 0x9FA5)"

definition safe_title :: "jsstring \<Rightarrow> jsstring" where
  "safe_title t = take 20 (map (\<lambda>c. if is_title_char c then c else 0x5F) t)"

definition output_path :: "env \<Rightarrow> nat \<times> ArticleItem \<Rightarrow> path" where
  "output_path env t =
     (OUTPUT_DIR,
      js ''list_'' @ date_str (iso_time env (fst t)) @ js ''_'' @ safe_title (title (snd t))
        @ js ''.md'')"

definition final_content :: "env \<Rightarrow> jsstring \<Rightarrow> nat \<times> ArticleItem \<Rightarrow> js_value \<Rightarrow> jsstring" where
  "final_content env filename t generatedContent =
     js ''\<newline><!--\<newline>Original Title: '' @ title (snd t)
     @ js ''\<newline>Source Link: '' @ link (snd t)
     @ js ''\<newline>Input List File: '' @ filename
     @ js ''\<newline>Generated: '' @ locale_time env (fst t)
     @ js ''\<newline>-->\<newline>\<newline>'' @ String generatedContent @ js ''\<newline>''"

text \<open>
  One task of the batch, the function handed to \<^verbatim>\<open>limit\<close>, on the world and the
  counter \<^verbatim>\<open>successCount\<close>. The \<^verbatim>\<open>catch\<close> clause of the task takes every left result.
  A task touches the shared state only by appending to the console and the network log,
  by one \<^verbatim>\<open>writeFileSync\<close> and by incrementing the counter, each of them atomic in the
  single-threaded event loop; for the files and for every count of events the interleaved
  batch is therefore the tasks run one after the other in the order of their writes.
\<close>

definition article_task ::
     "env \<Rightarrow> jsstring \<Rightarrow> nat \<Rightarrow> nat \<times> ArticleItem \<Rightarrow> world \<times> nat \<Rightarrow> world \<times> nat" where
  "article_task env filename n t st =
     (let article = snd t;
          w0 = fst st; successCount = snd st;
          w1 = console_log (LogTask (fst t + 1) n (title article)) w0
      in case fetchArticleContent env (link article) w1 of
           (w2, Inl e) \<Rightarrow> (console_log (LogTaskFailed (title article) e) w2, successCount)
         | (w2, Inr content) \<Rightarrow>
             if startsWith content (js ''[Failed'')
             then (console_log (LogSkipping (title article)) w2, successCount)
             else
               (case generateContent env (title article) content (link article) w2 of
                  (w3, Inl e) \<Rightarrow> (console_log (LogTaskFailed (title article) e) w3, successCount)
                | (w3, Inr generatedContent) \<Rightarrow>
                    (case writeFileSync env (output_path env t)
                            (final_content env filename t generatedContent) w3 of
                       Inl e \<Rightarrow> (console_log (LogTaskFailed (title article) e) w3, successCount)
                     | Inr w4 \<Rightarrow> (console_log (LogSaved (output_path env t)) w4, successCount + 1))))"

definition archive_path :: "env \<Rightarrow> jsstring \<Rightarrow> path" where
  "archive_path env filename = (ARCHIVE_DIR, decimal (date_now env) @ js ''_'' @ filename)"

text \<open>\<^verbatim>\<open>articles.map((article, index) => ...)\<close>: every article with its index.\<close>

definition tasks_of :: "ArticleItem list \<Rightarrow> (nat \<times> ArticleItem) list" where
  "tasks_of articles = zip [0..<length articles] articles"

text \<open>
  \<^verbatim>\<open>processInputFile\<close>. The one-second wait changes nothing the code can see unless
  the file is removed meanwhile, which the \<^verbatim>\<open>existsSync\<close> test covers. The tasks are
  the articles with their indices, run in the order the scheduler gives them; the outer
  \<^verbatim>\<open>catch\<close> clause takes the errors of reading and renaming.
\<close>

definition processInputFile :: "env \<Rightarrow> path \<Rightarrow> world \<Rightarrow> world" where
  "processInputFile env filePath w =
     (let filename = snd filePath;
          w1 = console_log (LogProcessing filename) w
      in if files w1 filePath = None then w1
         else
           (case readFileSync env filePath w1 of
              Inl e \<Rightarrow> console_log (LogFileFailed filename e) w1
            | Inr fileContent \<Rightarrow>
                let articles = parseMarkdownLinks fileContent
                in if length articles = 0 then console_log (LogNoValidLinks filename) w1
                   else
                     let w2 = console_log (LogFound (length articles)) w1;
                         tasks = tasks_of articles;
                         st = fold (article_task env filename (length articles))
                                (schedule env tasks) (w2, 0);
                         w3 = fst st; successCount = snd st
                     in (case renameSync env filePath (archive_path env filename) w3 of
                           Inl e \<Rightarrow> console_log (LogFileFailed filename e) w3
                         | Inr w4 \<Rightarrow>
                             let w5 = console_log (LogArchived (archive_path env filename)) w4
                             in if successCount > 0 then runVerifySkill env w5 else w5)))"

text \<open>The world and the counter \<^verbatim>\<open>successCount\<close> when \<^verbatim>\<open>Promise.all(tasks)\<close> has settled.\<close>

definition settled :: "env \<Rightarrow> path \<Rightarrow> jsstring \<Rightarrow> world \<Rightarrow> world \<times> nat" where
  "settled env filePath fileContent w =
     (let articles = parseMarkdownLinks fileContent
      in fold (article_task env (snd filePath) (length articles))
           (schedule env (tasks_of articles))
           (console_log (LogFound (length articles))
              (console_log (LogProcessing (snd filePath)) w), 0))"

section \<open>Pipeline B: the hot-list fetcher\<close>

definition TOPHUB_URL :: jsstring where
  "TOPHUB_URL = js ''https://tophub.today/hot''"

text \<open>The separator of the label, U+2027, one code unit.\<close>

definition MIDDLE_DOT :: "16 word" where "MIDDLE_DOT = 0x2027"

text \<open>\<^verbatim>\<open>s.split(sep)\<close> for a separator of one code unit; the empty string splits into one empty part.\<close>

fun split_on :: "16 word \<Rightarrow> jsstring \<Rightarrow> jsstring list" where
  "split_on sep [] = [[]]"
| "split_on sep (c # cs) =
     (if c = sep then [] # split_on sep cs
      else (case split_on sep cs of
              [] \<Rightarrow> [[c]]
            | p # ps \<Rightarrow> (c # p) # ps))"

text \<open>\<^verbatim>\<open>parts[i] || ''\<close>: an index beyond the array gives \<^verbatim>\<open>undefined\<close>, which is falsy.\<close>

definition part_or_empty :: "jsstring list \<Rightarrow> nat \<Rightarrow> jsstring" where
  "part_or_empty parts i = (if i < length parts then parts ! i else [])"

text \<open>
  The values the callback of \<^verbatim>\<open>$('.child-item').each\<close> computes for one node.
  \<^verbatim>\<open>text()\<close> of an empty selection is the empty string, and \<^verbatim>\<open>attr('href')\<close> of a
  missing attribute is \<^verbatim>\<open>undefined\<close>.
\<close>

definition full_link :: "jsstring \<Rightarrow> jsstring" where
  "full_link l = (if startsWith l (js ''http'') then l else js ''https://tophub.today'' @ l)"

definition hot_item_of :: "child_item \<Rightarrow> HotItem" where
  "hot_item_of el =
     (let rank_v = trim (left_item_span_text el);
          title_v = trim (medium_txt_a_text el);
          link_v = (case medium_txt_a_href el of None \<Rightarrow> [] | Some h \<Rightarrow> h);
          fullLink = full_link link_v;
          smallTxt = trim (small_txt_text el);
          parts = map trim (split_on MIDDLE_DOT smallTxt);
          source_v = part_or_empty parts 0;
          hot_v = part_or_empty parts 1
      in \<lparr>rank = rank_v, item_title = title_v, item_link = fullLink, hot = hot_v,
          source = source_v\<rparr>)"

definition each_child_item :: "child_item \<Rightarrow> HotItem list \<Rightarrow> HotItem list" where
  "each_child_item el items =
     (if item_title (hot_item_of el) \<noteq> [] then items @ [hot_item_of el] else items)"

definition fetchHotList :: "env \<Rightarrow> world \<Rightarrow> world \<times> (js_error + HotItem list)" where
  "fetchHotList env w =
     (let w1 = console_log LogFetchingTophub w;
          w2 = w1\<lparr>network := network w1 @ [HttpGet TOPHUB_URL]\<rparr>
      in case http_fetch env TOPHUB_URL of
           Inl e \<Rightarrow> (w2, Inl e)
         | Inr response \<Rightarrow>
             if \<not> ok response
             then (w2, Inl (Error (js ''Failed to fetch tophub: '' @ decimal (status response)
                                     @ js '' '' @ statusText response)))
             else (case response_text response of
                     Inl e \<Rightarrow> (w2, Inl e)
                   | Inr html \<Rightarrow> (w2, Inr (fold each_child_item (child_items env html) []))))"

section \<open>Pipeline B: the trend analyzer\<close>

fun join :: "jsstring \<Rightarrow> jsstring list \<Rightarrow> jsstring" where
  "join sep [] = []"
| "join sep [x] = x"
| "join sep (x # y # ys) = x @ sep @ join sep (y # ys)"

definition item_line :: "HotItem \<Rightarrow> jsstring" where
  "item_line item =
     rank item @ js ''. ['' @ source item @ js ''] '' @ item_title item @ js '' (Hot: ''
       @ hot item @ js '') - Link: '' @ item_link item"

definition analysis_prompt :: "HotItem list \<Rightarrow> jsstring" where
  "analysis_prompt items =
     js ''\<newline>You are a content strategy expert. Here is a list of current trending topics from TopHub (Hot List):\<newline>\<newline>''
     @ join (js ''\<newline>'') (map item_line (take 30 items)) @ js ''\<newline>\<newline>''
     @ js ''Please perform the following tasks:\<newline>''
     @ js ''1. **Analyze Traffic Potential**: Identify which of these topics have the highest potential for viral traffic *right now*. Look for topics that arouse strong curiosity, controversy, or urgency.\<newline>''
     @ js ''2. **Topic Suggestions**: Based on the high-potential topics, suggest 5 specific content angles/titles that a creator could use.\<newline>''
     @ js ''3. **Format**: Output your response in Markdown.\<newline>\<newline>''
     @ js ''For the suggestions, use this format:\<newline>''
     @ js ''- **Topic**: [Original Topic Title]\<newline>''
     @ js ''- **Angle**: [Proposed Content Angle]\<newline>''
     @ js ''- **Why it works**: [Brief explanation of traffic potential]\<newline>''"

definition analysis_request :: "HotItem list \<Rightarrow> api_request" where
  "analysis_request items =
     \<lparr>model = js ''anthropic/claude-sonnet-4'', max_tokens = 4000, temperature = 7 / 10,
      system = js ''You are an expert content strategist and trend analyst.'',
      user_message = analysis_prompt items\<rparr>"

definition analyzeHotList :: "env \<Rightarrow> HotItem list \<Rightarrow> world \<Rightarrow> world \<times> (js_error + js_value)" where
  "analyzeHotList env items w =
     (let w1 = console_log LogAnalyzing w
      in if MOCK_MODE env
         then (w1, Inr (Str (js ''# Mock Analysis\<newline>\<newline>- Mock Suggestion 1\<newline>- Mock Suggestion 2'')))
         else
           let request = analysis_request items;
               w2 = w1\<lparr>network := network w1 @ [ModelCall request]\<rparr>
           in (case messages_create env request of
                 Inl e \<Rightarrow> (w2, Inl e)
               | Inr content \<Rightarrow> (w2, first_text content)))"

section \<open>Pipeline B: one run\<close>

text \<open>
  \<^verbatim>\<open>run\<close> returns the path of the report, or ends the process through
  \<^verbatim>\<open>process.exit(1)\<close> in its \<^verbatim>\<open>catch\<close> clause.
\<close>

datatype run_outcome = Returned path | Exited nat

definition raw_filename :: "env \<Rightarrow> jsstring" where
  "raw_filename env = js ''tophub_hot_'' @ dashed (iso_time env 0) @ js ''.json''"

definition report_filename :: "env \<Rightarrow> jsstring" where
  "report_filename env = js ''tophub_analysis_'' @ dashed (iso_time env 0) @ js ''.md''"

definition report_content :: "env \<Rightarrow> js_value \<Rightarrow> jsstring" where
  "report_content env report =
     js ''# TopHub Hot List Analysis\<newline>> Generated at: '' @ locale_time env 0
     @ js ''\<newline>> Source Data: ['' @ raw_filename env @ js ''](./'' @ raw_filename env
     @ js '')\<newline>\<newline>'' @ String report"

definition fail_run :: "js_error \<Rightarrow> world \<Rightarrow> world \<times> run_outcome" where
  "fail_run e w = (console_log (LogRunFailed e) w, Exited 1)"

definition run :: "env \<Rightarrow> world \<Rightarrow> world \<times> run_outcome" where
  "run env w =
     (case fetchHotList env w of
        (w1, Inl e) \<Rightarrow> fail_run e w1
      | (w1, Inr items) \<Rightarrow>
          let w2 = console_log (LogFetched (length items)) w1;
              rawPath = (TRENDS_DIR, raw_filename env)
          in (case writeFileSync env rawPath (json_stringify env items) w2 of
                Inl e \<Rightarrow> fail_run e w2
              | Inr w3 \<Rightarrow>
                  let w4 = console_log (LogSavedRaw rawPath) w3
                  in (case analyzeHotList env items w4 of
                        (w5, Inl e) \<Rightarrow> fail_run e w5
                      | (w5, Inr report) \<Rightarrow>
                          let reportPath = (TRENDS_DIR, report_filename env)
                          in (case writeFileSync env reportPath (report_content env report) w5 of
                                Inl e \<Rightarrow> fail_run e w5
                              | Inr w6 \<Rightarrow>
                                  (console_log (LogSavedReport reportPath) w6,
                                   Returned reportPath)))))"

section \<open>Observations on the console\<close>

text \<open>
  The number of tasks skipped, of articles handed to the generator, of posts saved and of
  input files archived so far is the number of the lines the code logs at these places.
\<close>

definition skips :: "world \<Rightarrow> nat" where
  "skips w = length (filter (\<lambda>e. case e of LogSkipping _ \<Rightarrow> True | _ \<Rightarrow> False) (console w))"

definition generations :: "world \<Rightarrow> nat" where
  "generations w = length (filter (\<lambda>e. case e of LogGenerating _ \<Rightarrow> True | _ \<Rightarrow> False) (console w))"

definition saves :: "world \<Rightarrow> nat" where
  "saves w = length (filter (\<lambda>e. case e of LogSaved _ \<Rightarrow> True | _ \<Rightarrow> False) (console w))"

definition archives :: "world \<Rightarrow> nat" where
  "archives w = length (filter (\<lambda>e. case e of LogArchived _ \<Rightarrow> True | _ \<Rightarrow> False) (console w))"

text \<open>
  The string \<^verbatim>\<open>fetchArticleContent\<close> hands to its caller, and the value
  \<^verbatim>\<open>generateContent\<close> hands to its caller (neither depends on the world).
\<close>

definition fetched :: "env \<Rightarrow> jsstring \<Rightarrow> jsstring" where
  "fetched env url =
     (case fetch_try env url of Inr excerpt \<Rightarrow> excerpt | Inl e \<Rightarrow> fetch_sentinel url)"

definition generated :: "env \<Rightarrow> jsstring \<Rightarrow> jsstring \<Rightarrow> js_error + js_value" where
  "generated env articleTitle articleContent =
     (if MOCK_MODE env
      then Inr (Str (js ''# Mock Content for '' @ articleTitle
                       @ js ''\<newline>\<newline>Generated in Mock Mode.''))
      else (case messages_create env (generation_request articleTitle articleContent) of
              Inl e \<Rightarrow> Inl e
            | Inr content \<Rightarrow> first_text content))"

text \<open>
  An article fails fetch when the \<^verbatim>\<open>try\<close> block of the fetcher throws, so that the
  fetcher returns its sentinel. A task succeeds when its article is fetched (to a text
  that does not begin like the sentinel), generated and written without an error.
\<close>

definition fetch_fails :: "env \<Rightarrow> ArticleItem \<Rightarrow> bool" where
  "fetch_fails env article \<longleftrightarrow> isl (fetch_try env (link article))"

definition task_succeeds :: "env \<Rightarrow> nat \<times> ArticleItem \<Rightarrow> bool" where
  "task_succeeds env t \<longleftrightarrow>
     (case fetch_try env (link (snd t)) of
        Inl e \<Rightarrow> False
      | Inr excerpt \<Rightarrow>
          \<not> startsWith excerpt (js ''[Failed'')
          \<and> \<not> isl (generated env (title (snd t)) excerpt)
          \<and> write_error env (output_path env t) = None)"

text \<open>The output files a step from world \<open>w\<close> to world \<open>w'\<close> has created.\<close>

definition created_outputs :: "world \<Rightarrow> world \<Rightarrow> path set" where
  "created_outputs w w' = {p \<in> dom (files w') - dom (files w). fst p = OUTPUT_DIR}"

section \<open>Example worlds and environments\<close>

text \<open>
  The concrete inputs the closed theorems below evaluate the code on: an empty world, and
  an environment in mock mode whose network is down and whose file system raises no
  error. The other environments change single fields of it.
\<close>

definition empty_world :: world where
  "empty_world = \<lparr>files = Map.empty, console = [], network = [], spawned = 0\<rparr>"

definition offline_env :: env where
  "offline_env =
     \<lparr>MOCK_MODE = True,
      http_fetch = (\<lambda>_. Inl (Thrown 0)),
      readability_parse = (\<lambda>_ _. Inr NullArticle),
      messages_create = (\<lambda>_. Inl (Thrown 0)),
      iso_time = (\<lambda>_. js ''2026-01-02T03:04:05.678Z''),
      locale_time = (\<lambda>_. js ''1/2/2026, 3:04:05 AM''),
      date_now = 1767323045678,
      read_error = (\<lambda>_. None),
      write_error = (\<lambda>_. None),
      rename_error = (\<lambda>_. None),
      verify_exit = Some 0,
      schedule = (\<lambda>tasks. tasks),
      child_items = (\<lambda>_. []),
      json_stringify = (\<lambda>_. js ''[]'')\<rparr>"

definition page_response :: http_response where
  "page_response =
     \<lparr>ok = True, status = 200, statusText = js ''OK'', response_text = Inr (js ''<html></html>'')\<rparr>"

definition not_found_response :: http_response where
  "not_found_response =
     \<lparr>ok = False, status = 404, statusText = js ''Not Found'',
      response_text = Inr (js ''<html></html>'')\<rparr>"

text \<open>An environment in which every page loads and Readability extracts the given text.\<close>

definition page_env :: "jsstring \<Rightarrow> env" where
  "page_env t =
     offline_env\<lparr>http_fetch := (\<lambda>_. Inr page_response),
                 readability_parse := (\<lambda>_ _. Inr (Article (Some t)))\<rparr>"

text \<open>Live mode with a model whose reply starts with a segment that is not text.\<close>

definition tool_reply_env :: env where
  "tool_reply_env =
     (page_env (js ''Body''))\<lparr>MOCK_MODE := False,
                            messages_create := (\<lambda>_. Inr [NonTextBlock, TextBlock (js ''late'')])\<rparr>"

text \<open>A world whose input directory holds the one file \<^verbatim>\<open>links.md\<close>.\<close>

definition inbox :: "jsstring \<Rightarrow> world" where
  "inbox fileContent = empty_world\<lparr>files := [(INPUT_DIR, js ''links.md'') \<mapsto> fileContent]\<rparr>"

text \<open>Input files: two links with the same title, two different links, one link.\<close>

definition twin_titles :: jsstring where
  "twin_titles = js ''[A](https://example.com/a) [A](https://example.com/b)''"

definition two_links :: jsstring where
  "two_links = js ''1. [AI News](https://example.com/a) 2. [Gone](https://example.com/b)''"

definition one_link :: jsstring where
  "one_link = js ''1. [AI News](https://example.com/a)''"

text \<open>
  Pages load and mock mode is on; in \<open>half_env\<close> only the first URL answers (the second
  gives status 404) and the scheduler runs the tasks in reverse; in \<open>locked_env\<close> the
  operating system refuses to rename the input file.
\<close>

definition half_env :: env where
  "half_env =
     (page_env (js ''Body''))\<lparr>
        http_fetch := (\<lambda>url. if url = js ''https://example.com/a'' then Inr page_response
                             else Inr not_found_response),
        schedule := rev\<rparr>"

definition locked_env :: env where
  "locked_env = (page_env (js ''Body''))\<lparr>rename_error := (\<lambda>_. Some (Thrown 1))\<rparr>"

text \<open>
  What \<^verbatim>\<open>fetchHotList\<close> and \<^verbatim>\<open>analyzeHotList\<close> hand to their caller (neither depends
  on the world).
\<close>

definition hot_list :: "env \<Rightarrow> js_error + HotItem list" where
  "hot_list env = snd (fetchHotList env empty_world)"

definition analysed :: "env \<Rightarrow> HotItem list \<Rightarrow> js_error + js_value" where
  "analysed env items = snd (analyzeHotList env items empty_world)"

text \<open>Environments of the fetcher and of the generators.\<close>

definition not_found_env :: env where
  "not_found_env = offline_env\<lparr>http_fetch := (\<lambda>_. Inr not_found_response)\<rparr>"

definition text_reply_env :: env where
  "text_reply_env =
     (page_env (js ''Body''))\<lparr>MOCK_MODE := False,
                            messages_create := (\<lambda>_. Inr [TextBlock (js ''# Post''), NonTextBlock])\<rparr>"

definition empty_reply_env :: env where
  "empty_reply_env =
     (page_env (js ''Body''))\<lparr>MOCK_MODE := False, messages_create := (\<lambda>_. Inr [])\<rparr>"

text \<open>
  A hot-list page of three nodes: a full one, one without a title, and one whose label has
  no separator and whose link is relative.
\<close>

definition hot_page :: "child_item list" where
  "hot_page =
     [\<lparr>left_item_span_text = js ''1'', medium_txt_a_text = js '' First topic '',
       medium_txt_a_href = Some (js ''https://example.com/1''),
       small_txt_text = js ''Zhihu '' @ [MIDDLE_DOT] @ js '' 958k''\<rparr>,
      \<lparr>left_item_span_text = js ''2'', medium_txt_a_text = js ''  '',
       medium_txt_a_href = None, small_txt_text = []\<rparr>,
      \<lparr>left_item_span_text = [], medium_txt_a_text = js ''Third topic'',
       medium_txt_a_href = Some (js ''/n/abc''), small_txt_text = js ''Weibo''\<rparr>]"

text \<open>Pipeline B in mock mode on that page, and in live mode with the model endpoint down.\<close>

definition trend_env :: env where
  "trend_env =
     offline_env\<lparr>http_fetch := (\<lambda>_. Inr page_response), child_items := (\<lambda>_. hot_page),
                 json_stringify := (\<lambda>_. js ''[{}, {}]'')\<rparr>"

definition model_down_env :: env where
  "model_down_env = trend_env\<lparr>MOCK_MODE := False\<rparr>"



section \<open>Verified properties\<close>

subsection \<open>The link extractor\<close>

lemma push_item_eq: "push_item m items = items @ map to_item (filter emits [m])"
  by (simp add: push_item_def emits_def to_item_def Let_def)

lemma regex_search_occurrences:
  "regex_search s i = None \<Longrightarrow> link_occurrences (drop i s) = []"
  "regex_search s i = Some (j, g1, g2, n) \<Longrightarrow>
     link_occurrences (drop i s) = (g1, g2) # link_occurrences (drop (j + n) s)"
proof (induction s i rule: regex_search.induct)
  case (1 s i)
  {
    case 1
    show ?case
    proof (cases "length s < i")
      case True
      then show ?thesis by simp
    next
      case False
      with 1 have np: "link_pattern_at (drop i s) = None" and nx: "regex_search s (Suc i) = None"
        by (auto simp: regex_search.simps[of s i] split: option.splits)
      show ?thesis
      proof (cases "drop i s")
        case Nil
        then show ?thesis by simp
      next
        case (Cons c r)
        then have r: "r = drop (Suc i) s" by (metis drop_Suc list.sel(3) tl_drop)
        from "1.IH"(1)[OF False np nx] have "link_occurrences r = []" by (simp add: r)
        with Cons np show ?thesis by (simp add: link_occurrences.simps(2))
      qed
    qed
  next
    case 2
    from 2 have le: "\<not> length s < i"
      by (auto simp: regex_search.simps[of s i] split: if_splits)
    show ?case
    proof (cases "link_pattern_at (drop i s)")
      case None
      with 2 le have nx: "regex_search s (Suc i) = Some (j, g1, g2, n)"
        by (simp add: regex_search.simps[of s i])
      show ?thesis
      proof (cases "drop i s")
        case Nil
        then have "length s \<le> i" by simp
        with regex_search_bounds[OF nx] show ?thesis by simp
      next
        case (Cons c r)
        then have r: "r = drop (Suc i) s" by (metis drop_Suc list.sel(3) tl_drop)
        from "1.IH"(2)[OF le None nx]
        have "link_occurrences r = (g1, g2) # link_occurrences (drop (j + n) s)"
          by (simp add: r)
        with Cons None show ?thesis by (simp add: link_occurrences.simps(2))
      qed
    next
      case (Some m)
      with 2 le have m: "m = (g1, g2, n)" and j: "j = i"
        by (auto simp: regex_search.simps[of s i])
      from link_pattern_at_len[of "drop i s" g1 g2 n] Some m have "drop i s \<noteq> []" by auto
      then obtain c r where Cons: "drop i s = c # r" by (cases "drop i s") auto
      have "drop n (c # r) = drop (j + n) s" using Cons j by (metis add.commute drop_drop)
      with Some m Cons show ?thesis by (simp add: link_occurrences.simps(2))
    qed
  }
qed

lemma parse_loop_eq:
  "parse_loop s i items = (items @ map to_item (filter emits (link_occurrences (drop i s))), 0)"
proof (induction s i items rule: parse_loop.induct)
  case (1 content lastIndex items)
  show ?case
  proof (cases "regex_search content lastIndex")
    case None
    then show ?thesis
      by (simp add: parse_loop.simps[of content lastIndex] regex_exec_def regex_search_occurrences(1))
  next
    case (Some r)
    obtain j g1 g2 n where r: "r = (j, g1, g2, n)" by (cases r)
    have ex: "regex_exec content lastIndex = (Some (g1, g2), j + n)"
      by (simp add: regex_exec_def Some r)
    from "1.IH"[OF ex[symmetric] refl]
    have "parse_loop content (j + n) (push_item (g1, g2) items)
            = (push_item (g1, g2) items
                 @ map to_item (filter emits (link_occurrences (drop (j + n) content))), 0)" .
    then show ?thesis
      using regex_search_occurrences(2)[of content lastIndex j g1 g2 n] Some r
      by (simp add: parse_loop.simps[of content lastIndex] ex push_item_eq)
  qed
qed

lemmas eval_strings = js_def trim_def startsWith_def is_js_space_def
  LBRACKET_def RBRACKET_def LPAREN_def RPAREN_def

lemmas eval_regex = parseMarkdownLinks_def parse_loop.simps regex_exec_def regex_search.simps
  link_pattern_at_def push_item_def

text \<open>
  C6. For every input text, \<^verbatim>\<open>parseMarkdownLinks\<close> returns exactly one item for each
  \<^verbatim>\<open>[Title](URL)\<close> occurrence (the successive matches of the pattern, scanning from
  the left) whose trimmed title and trimmed link are non-empty and whose trimmed link
  starts with \<^verbatim>\<open>http\<close>; the items carry the trimmed title and link and stand in the
  order of the occurrences; every other occurrence is dropped.
\<close>

theorem parseMarkdownLinks_occurrences:
  "parseMarkdownLinks content = map to_item (filter emits (link_occurrences content))"
  by (simp add: parseMarkdownLinks_def parse_loop_eq)

theorem parseMarkdownLinks_occurrences_witness:
  "parseMarkdownLinks (js ''1. [AI News](https://example.com/a) [x](ftp://y) [ b ]( http://c )'')
     = map to_item (filter emits
         [(js ''AI News'', js ''https://example.com/a''), (js ''x'', js ''ftp://y''),
          (js '' b '', js '' http://c '')])
   \<and> parseMarkdownLinks (js ''1. [AI News](https://example.com/a) [x](ftp://y) [ b ]( http://c )'')
     = [\<lparr>title = js ''AI News'', link = js ''https://example.com/a''\<rparr>,
        \<lparr>title = js ''b'', link = js ''http://c''\<rparr>]"
  using parseMarkdownLinks_occurrences
    [of "js ''1. [AI News](https://example.com/a) [x](ftp://y) [ b ]( http://c )''"]
  by (simp add: link_occurrences.simps link_pattern_at_def emits_def to_item_def eval_strings)

text \<open>
  C9. Re-running the extractor on the same text gives the same items: a run of the loop
  leaves the expression's \<^verbatim>\<open>lastIndex\<close> at 0, where it started, so a second run of
  the loop from the state the first one left returns the items of the first, which are
  those of \<^verbatim>\<open>parseMarkdownLinks\<close>.
\<close>

theorem parseMarkdownLinks_rerun:
  "parse_loop content 0 [] = (parseMarkdownLinks content, 0)
   \<and> parse_loop content (snd (parse_loop content 0 [])) [] = parse_loop content 0 []
   \<and> fst (parse_loop content (snd (parse_loop content 0 [])) []) = parseMarkdownLinks content"
  by (simp add: parseMarkdownLinks_def parse_loop_eq)

theorem parseMarkdownLinks_rerun_witness:
  "parse_loop (js ''[A](http://c)[x](y)'') 0 [] = ([\<lparr>title = js ''A'', link = js ''http://c''\<rparr>], 0)
   \<and> parse_loop (js ''[A](http://c)[x](y)'') (snd (parse_loop (js ''[A](http://c)[x](y)'') 0 [])) []
       = ([\<lparr>title = js ''A'', link = js ''http://c''\<rparr>], 0)"
proof -
  have e: "parseMarkdownLinks (js ''[A](http://c)[x](y)'') = [\<lparr>title = js ''A'', link = js ''http://c''\<rparr>]"
    by (simp add: eval_regex eval_strings)
  show ?thesis
    using parseMarkdownLinks_rerun [of "js ''[A](http://c)[x](y)''"] by (simp add: e)
qed

subsection \<open>The world and the tasks of a batch\<close>

lemma console_log_simps [simp]:
  "console (console_log e w) = console w @ [e]"
  "files (console_log e w) = files w"
  "network (console_log e w) = network w"
  "spawned (console_log e w) = spawned w"
  by (simp_all add: console_log_def)

lemma counts_console_log [simp]:
  "skips (console_log e w) = skips w + (case e of LogSkipping _ \<Rightarrow> 1 | _ \<Rightarrow> 0)"
  "generations (console_log e w) = generations w + (case e of LogGenerating _ \<Rightarrow> 1 | _ \<Rightarrow> 0)"
  "saves (console_log e w) = saves w + (case e of LogSaved _ \<Rightarrow> 1 | _ \<Rightarrow> 0)"
  "archives (console_log e w) = archives w + (case e of LogArchived _ \<Rightarrow> 1 | _ \<Rightarrow> 0)"
  by (simp_all add: skips_def generations_def saves_def archives_def split: log_event.splits)

lemma counts_update [simp]:
  "skips (w\<lparr>network := nw\<rparr>) = skips w" "skips (w\<lparr>files := fs\<rparr>) = skips w" "skips (w\<lparr>spawned := sp\<rparr>) = skips w"
  "generations (w\<lparr>network := nw\<rparr>) = generations w" "generations (w\<lparr>files := fs\<rparr>) = generations w"
  "generations (w\<lparr>spawned := sp\<rparr>) = generations w"
  "saves (w\<lparr>network := nw\<rparr>) = saves w" "saves (w\<lparr>files := fs\<rparr>) = saves w" "saves (w\<lparr>spawned := sp\<rparr>) = saves w"
  "archives (w\<lparr>network := nw\<rparr>) = archives w" "archives (w\<lparr>files := fs\<rparr>) = archives w"
  "archives (w\<lparr>spawned := sp\<rparr>) = archives w"
  by (simp_all add: skips_def generations_def saves_def archives_def)

lemma fetch_sentinel_prefix: "startsWith (fetch_sentinel url) (js ''[Failed'')"
  by (simp add: fetch_sentinel_def startsWith_def js_def)

lemma fetchArticleContent_result:
  "snd (fetchArticleContent env url w) = Inr (fetched env url)"
  by (simp add: fetchArticleContent_def fetched_def Let_def split: sum.splits)

lemma fetchArticleContent_world:
  "files (fst (fetchArticleContent env url w)) = files w"
  "spawned (fst (fetchArticleContent env url w)) = spawned w"
  "skips (fst (fetchArticleContent env url w)) = skips w"
  "generations (fst (fetchArticleContent env url w)) = generations w"
  "saves (fst (fetchArticleContent env url w)) = saves w"
  "archives (fst (fetchArticleContent env url w)) = archives w"
  by (simp_all add: fetchArticleContent_def Let_def split: sum.splits)

lemma generateContent_world:
  "files (fst (generateContent env t c l w)) = files w"
  "spawned (fst (generateContent env t c l w)) = spawned w"
  "skips (fst (generateContent env t c l w)) = skips w"
  "generations (fst (generateContent env t c l w)) = generations w + 1"
  "saves (fst (generateContent env t c l w)) = saves w"
  "archives (fst (generateContent env t c l w)) = archives w"
  by (simp_all add: generateContent_def Let_def split: sum.splits)

text \<open>The task, case by case.\<close>

lemma article_task_skip:
  assumes "startsWith (fetched env (link (snd t))) (js ''[Failed'')"
  shows "article_task env filename n t (w, k)
           = (console_log (LogSkipping (title (snd t)))
                (fst (fetchArticleContent env (link (snd t))
                        (console_log (LogTask (Suc (fst t)) n (title (snd t))) w))), k)"
proof -
  obtain w2 r where f: "fetchArticleContent env (link (snd t))
                        (console_log (LogTask (Suc (fst t)) n (title (snd t))) w) = (w2, r)"
    by (cases "fetchArticleContent env (link (snd t))
                        (console_log (LogTask (Suc (fst t)) n (title (snd t))) w)")
  with fetchArticleContent_result[of env "link (snd t)" "console_log (LogTask (Suc (fst t)) n (title (snd t))) w"]
  have r: "r = Inr (fetched env (link (snd t)))" by simp
  show ?thesis using assms by (simp add: article_task_def Let_def f r)
qed

lemma article_task_go:
  assumes "\<not> startsWith (fetched env (link (snd t))) (js ''[Failed'')"
  shows "article_task env filename n t (w, k)
           = (let w2 = fst (fetchArticleContent env (link (snd t))
                        (console_log (LogTask (Suc (fst t)) n (title (snd t))) w));
                  g = generateContent env (title (snd t)) (fetched env (link (snd t))) (link (snd t)) w2
              in case snd g of
                   Inl e \<Rightarrow> (console_log (LogTaskFailed (title (snd t)) e) (fst g), k)
                 | Inr generatedContent \<Rightarrow>
                    (case writeFileSync env (output_path env t)
                            (final_content env filename t generatedContent) (fst g) of
                       Inl e \<Rightarrow> (console_log (LogTaskFailed (title (snd t)) e) (fst g), k)
                     | Inr w4 \<Rightarrow> (console_log (LogSaved (output_path env t)) w4, k + 1)))"
proof -
  obtain w2 r where f: "fetchArticleContent env (link (snd t))
                        (console_log (LogTask (Suc (fst t)) n (title (snd t))) w) = (w2, r)"
    by (cases "fetchArticleContent env (link (snd t))
                        (console_log (LogTask (Suc (fst t)) n (title (snd t))) w)")
  with fetchArticleContent_result[of env "link (snd t)" "console_log (LogTask (Suc (fst t)) n (title (snd t))) w"]
  have r: "r = Inr (fetched env (link (snd t)))" by simp
  obtain w3 g where g: "generateContent env (title (snd t)) (fetched env (link (snd t))) (link (snd t)) w2 = (w3, g)"
    by (cases "generateContent env (title (snd t)) (fetched env (link (snd t))) (link (snd t)) w2")
  show ?thesis using assms by (simp add: article_task_def Let_def f r g split: sum.splits)
qed

lemma generateContent_result:
  "snd (generateContent env t c l w) = generated env t c"
  by (simp add: generateContent_def generated_def Let_def split: sum.splits)

lemma output_path_dir [simp]: "fst (output_path env t) = OUTPUT_DIR"
  by (simp add: output_path_def)

lemma article_task_frame:
  "spawned (fst (article_task env filename n t st)) = spawned (fst st)"
  "archives (fst (article_task env filename n t st)) = archives (fst st)"
  "fst p \<noteq> OUTPUT_DIR \<Longrightarrow> files (fst (article_task env filename n t st)) p = files (fst st) p"
proof -
  obtain w k where st: "st = (w, k)" by (cases st)
  have "spawned (fst (article_task env filename n t (w, k))) = spawned w
      \<and> archives (fst (article_task env filename n t (w, k))) = archives w
      \<and> (fst p \<noteq> OUTPUT_DIR \<longrightarrow> files (fst (article_task env filename n t (w, k))) p = files w p)"
  proof (cases "startsWith (fetched env (link (snd t))) (js ''[Failed'')")
    case True
    then show ?thesis by (simp add: article_task_skip fetchArticleContent_world)
  next
    case False
    show ?thesis
      by (auto simp: article_task_go[OF False] Let_def fetchArticleContent_world generateContent_world
          writeFileSync_def split: sum.splits option.splits)
  qed
  then show "spawned (fst (article_task env filename n t st)) = spawned (fst st)"
    "archives (fst (article_task env filename n t st)) = archives (fst st)"
    "fst p \<noteq> OUTPUT_DIR \<Longrightarrow> files (fst (article_task env filename n t st)) p = files (fst st) p"
    by (simp_all add: st)
qed

lemma fold_task_frame:
  "spawned (fst (fold (article_task env filename n) ts st)) = spawned (fst st)"
  "archives (fst (fold (article_task env filename n) ts st)) = archives (fst st)"
  "fst p \<noteq> OUTPUT_DIR \<Longrightarrow> files (fst (fold (article_task env filename n) ts st)) p = files (fst st) p"
  by (induction ts arbitrary: st) (simp_all add: article_task_frame)

lemma fetch_fails_fetched: "fetch_fails env a \<Longrightarrow> fetched env (link a) = fetch_sentinel (link a)"
  by (auto simp: fetch_fails_def fetched_def split: sum.splits)

lemma article_task_failed_fetch:
  assumes "fetch_fails env (snd t)"
  shows "snd (article_task env filename n t (w, k)) = k"
    and "skips (fst (article_task env filename n t (w, k))) = skips w + 1"
    and "saves (fst (article_task env filename n t (w, k))) = saves w"
    and "files (fst (article_task env filename n t (w, k))) = files w"
proof -
  have "startsWith (fetched env (link (snd t))) (js ''[Failed'')"
    using assms by (simp add: fetch_fails_fetched fetch_sentinel_prefix)
  then show "snd (article_task env filename n t (w, k)) = k"
    and "skips (fst (article_task env filename n t (w, k))) = skips w + 1"
    and "saves (fst (article_task env filename n t (w, k))) = saves w"
    and "files (fst (article_task env filename n t (w, k))) = files w"
    by (simp_all add: article_task_skip fetchArticleContent_world)
qed

lemma article_task_succeeds:
  assumes "task_succeeds env t"
  shows "snd (article_task env filename n t (w, k)) = k + 1"
    and "skips (fst (article_task env filename n t (w, k))) = skips w"
    and "saves (fst (article_task env filename n t (w, k))) = saves w + 1"
    and "dom (files (fst (article_task env filename n t (w, k)))) = insert (output_path env t) (dom (files w))"
proof -
  from assms obtain excerpt where ex: "fetch_try env (link (snd t)) = Inr excerpt"
    and np: "\<not> startsWith excerpt (js ''[Failed'')"
    and g: "\<not> isl (generated env (title (snd t)) excerpt)"
    and wr: "write_error env (output_path env t) = None"
    by (auto simp: task_succeeds_def split: sum.splits)
  have f: "fetched env (link (snd t)) = excerpt" by (simp add: fetched_def ex)
  from g obtain v where v: "generated env (title (snd t)) excerpt = Inr v"
    by (cases "generated env (title (snd t)) excerpt") auto
  have go: "\<not> startsWith (fetched env (link (snd t))) (js ''[Failed'')" using np f by simp
  show "snd (article_task env filename n t (w, k)) = k + 1"
    and "skips (fst (article_task env filename n t (w, k))) = skips w"
    and "saves (fst (article_task env filename n t (w, k))) = saves w + 1"
    and "dom (files (fst (article_task env filename n t (w, k)))) = insert (output_path env t) (dom (files w))"
    by (simp_all add: article_task_go[OF go] f Let_def generateContent_result v writeFileSync_def wr
        fetchArticleContent_world generateContent_world)
qed


lemma task_succeeds_not_fails: "task_succeeds env t \<Longrightarrow> \<not> fetch_fails env (snd t)"
  by (auto simp: task_succeeds_def fetch_fails_def split: sum.splits)

lemma fold_tasks_counts:
  assumes "\<forall>t \<in> set ts. fetch_fails env (snd t) \<or> task_succeeds env t"
  shows "snd (fold (article_task env filename n) ts (w, k))
           = k + length (filter (\<lambda>t. \<not> fetch_fails env (snd t)) ts)
       \<and> skips (fst (fold (article_task env filename n) ts (w, k)))
           = skips w + length (filter (\<lambda>t. fetch_fails env (snd t)) ts)
       \<and> saves (fst (fold (article_task env filename n) ts (w, k)))
           = saves w + length (filter (\<lambda>t. \<not> fetch_fails env (snd t)) ts)
       \<and> dom (files (fst (fold (article_task env filename n) ts (w, k))))
           = dom (files w) \<union> output_path env ` {t \<in> set ts. \<not> fetch_fails env (snd t)}"
  using assms
proof (induction ts arbitrary: w k)
  case Nil
  then show ?case by simp
next
  case (Cons t ts)
  obtain w1 k1 where st: "article_task env filename n t (w, k) = (w1, k1)"
    by (cases "article_task env filename n t (w, k)")
  from Cons.prems have rest: "\<forall>t \<in> set ts. fetch_fails env (snd t) \<or> task_succeeds env t" by simp
  note IH = Cons.IH[OF rest, of w1 k1]
  show ?case
  proof (cases "fetch_fails env (snd t)")
    case True
    from article_task_failed_fetch[OF True, of filename n w k] st
    have "k1 = k" "skips w1 = skips w + 1" "saves w1 = saves w" "files w1 = files w" by simp_all
    with IH True show ?thesis by (auto simp: st)
  next
    case False
    with Cons.prems have ok: "task_succeeds env t" by simp
    from article_task_succeeds[OF ok, of filename n w k] st
    have "k1 = k + 1" "skips w1 = skips w" "saves w1 = saves w + 1"
      "dom (files w1) = insert (output_path env t) (dom (files w))" by simp_all
    with IH False show ?thesis by (auto simp: st)
  qed
qed

lemma filter_schedule_length:
  assumes "mset xs = mset ys"
  shows "length (filter P xs) = length (filter P ys)"
proof -
  have "mset (filter P xs) = mset (filter P ys)" using assms by simp
  then show ?thesis by (metis size_mset)
qed

lemma filter_zip_snd_gen:
  "length ns = length xs \<Longrightarrow>
     length (filter (\<lambda>t. P (snd t)) (zip ns xs)) = length (filter P xs)"
  by (induction ns xs rule: list_induct2) simp_all

lemma filter_zip_snd:
  "length (filter (\<lambda>t. P (snd t)) (zip [0..<length xs] xs)) = length (filter P xs)"
  by (rule filter_zip_snd_gen) simp

lemma runVerifySkill_world:
  "files (runVerifySkill env w) = files w"
  "skips (runVerifySkill env w) = skips w"
  "saves (runVerifySkill env w) = saves w"
  "archives (runVerifySkill env w) = archives w"
  "network (runVerifySkill env w) = network w"
  "spawned (runVerifySkill env w) = spawned w + 1"
  by (simp_all add: runVerifySkill_def Let_def)

lemma archive_path_dir [simp]: "fst (archive_path env filename) = ARCHIVE_DIR"
  by (simp add: archive_path_def)

lemma settled_frame:
  "spawned (fst (settled env filePath fileContent w)) = spawned w"
  "archives (fst (settled env filePath fileContent w)) = archives w"
  "fst p \<noteq> OUTPUT_DIR \<Longrightarrow> files (fst (settled env filePath fileContent w)) p = files w p"
  by (simp_all add: settled_def Let_def fold_task_frame)

lemma processInputFile_no_links:
  assumes "files w filePath = Some fileContent" "read_error env filePath = None"
    and "parseMarkdownLinks fileContent = []"
  shows "processInputFile env filePath w
           = console_log (LogNoValidLinks (snd filePath)) (console_log (LogProcessing (snd filePath)) w)"
  using assms by (simp add: processInputFile_def Let_def readFileSync_def)

lemma processInputFile_links:
  assumes dir: "fst filePath = INPUT_DIR"
    and present: "files w filePath = Some fileContent"
    and rd: "read_error env filePath = None"
    and links: "parseMarkdownLinks fileContent \<noteq> []"
  shows "processInputFile env filePath w
           = (let st = settled env filePath fileContent w
              in case rename_error env filePath of
                   Some e \<Rightarrow> console_log (LogFileFailed (snd filePath) e) (fst st)
                 | None \<Rightarrow>
                     let w5 = console_log (LogArchived (archive_path env (snd filePath)))
                               ((fst st)\<lparr>files := ((files (fst st))(filePath := None))
                                            (archive_path env (snd filePath) \<mapsto> fileContent)\<rparr>)
                     in if snd st > 0 then runVerifySkill env w5 else w5)"
proof -
  have "files (fst (settled env filePath fileContent w)) filePath = Some fileContent"
    using settled_frame(3)[where p = filePath and env = env and fileContent = fileContent and w = w] dir present by simp
  then show ?thesis
    using present rd links
    by (simp add: processInputFile_def Let_def readFileSync_def renameSync_def settled_def
        split: option.splits)
qed


lemma settled_counts:
  assumes sched: "mset (schedule env (tasks_of (parseMarkdownLinks fileContent)))
                    = mset (tasks_of (parseMarkdownLinks fileContent))"
    and each: "\<forall>t \<in> set (tasks_of (parseMarkdownLinks fileContent)).
                 fetch_fails env (snd t) \<or> task_succeeds env t"
  shows "snd (settled env filePath fileContent w)
           = length (parseMarkdownLinks fileContent)
               - length (filter (fetch_fails env) (parseMarkdownLinks fileContent))"
    and "skips (fst (settled env filePath fileContent w))
           = skips w + length (filter (fetch_fails env) (parseMarkdownLinks fileContent))"
    and "saves (fst (settled env filePath fileContent w))
           = saves w + (length (parseMarkdownLinks fileContent)
               - length (filter (fetch_fails env) (parseMarkdownLinks fileContent)))"
    and "dom (files (fst (settled env filePath fileContent w)))
           = dom (files w) \<union> output_path env `
               {t \<in> set (tasks_of (parseMarkdownLinks fileContent)). \<not> fetch_fails env (snd t)}"
proof -
  define articles where "articles = parseMarkdownLinks fileContent"
  define order where "order = schedule env (tasks_of articles)"
  define w2 where "w2 = console_log (LogFound (length articles))
              (console_log (LogProcessing (snd filePath)) w)"
  have st: "settled env filePath fileContent w
              = fold (article_task env (snd filePath) (length articles)) order (w2, 0)"
    by (simp add: settled_def Let_def articles_def order_def w2_def)
  have ms: "mset order = mset (tasks_of articles)"
    using sched by (simp add: order_def articles_def)
  then have se: "set order = set (tasks_of articles)" by (rule mset_eq_setD)
  have each': "\<forall>t \<in> set order. fetch_fails env (snd t) \<or> task_succeeds env t"
    using each se by (simp add: articles_def)
  note fc = fold_tasks_counts[OF each', of "snd filePath" "length articles" w2 0]
  have f1: "length (filter (\<lambda>t. fetch_fails env (snd t)) order)
              = length (filter (fetch_fails env) articles)"
    using filter_schedule_length[OF ms, of "\<lambda>t. fetch_fails env (snd t)"]
    by (simp add: tasks_of_def filter_zip_snd)
  have f2: "length (filter (\<lambda>t. \<not> fetch_fails env (snd t)) order)
              = length (filter (\<lambda>a. \<not> fetch_fails env a) articles)"
    using filter_schedule_length[OF ms, of "\<lambda>t. \<not> fetch_fails env (snd t)"]
    by (simp add: tasks_of_def filter_zip_snd[of "\<lambda>a. \<not> fetch_fails env a"])
  have compl: "length (filter (\<lambda>a. \<not> fetch_fails env a) articles)
                = length articles - length (filter (fetch_fails env) articles)"
    using sum_length_filter_compl[of "fetch_fails env" articles] by simp
  have w2s: "skips w2 = skips w" "saves w2 = saves w" "files w2 = files w"
    by (simp_all add: w2_def)
  show "snd (settled env filePath fileContent w)
           = length (parseMarkdownLinks fileContent)
               - length (filter (fetch_fails env) (parseMarkdownLinks fileContent))"
    using fc f2 compl by (simp add: st articles_def)
  show "skips (fst (settled env filePath fileContent w))
           = skips w + length (filter (fetch_fails env) (parseMarkdownLinks fileContent))"
    using fc f1 w2s by (simp add: st articles_def)
  show "saves (fst (settled env filePath fileContent w))
           = saves w + (length (parseMarkdownLinks fileContent)
               - length (filter (fetch_fails env) (parseMarkdownLinks fileContent)))"
    using fc f2 compl w2s by (simp add: st articles_def)
  show "dom (files (fst (settled env filePath fileContent w)))
           = dom (files w) \<union> output_path env `
               {t \<in> set (tasks_of (parseMarkdownLinks fileContent)). \<not> fetch_fails env (snd t)}"
    using fc se w2s by (simp add: st articles_def)
qed

lemma created_outputs_archived:
  assumes "fst filePath = INPUT_DIR"
    and "files w' = ((files w3)(filePath := None))(archive_path env filename \<mapsto> d)"
    and "dom (files w3) = dom (files w) \<union> output_path env ` S"
  shows "created_outputs w w' = output_path env ` S - dom (files w)"
  using assms by (auto simp: created_outputs_def)

subsection \<open>Evaluation on the examples\<close>

lemmas eval_world = processInputFile_def readFileSync_def renameSync_def writeFileSync_def
  article_task_def fetchArticleContent_def fetch_try_def generateContent_def runVerifySkill_def
  console_log_def tasks_of_def output_path_def final_content_def archive_path_def
  date_str_def dashed_def safe_title_def is_title_char_def String_def fetch_sentinel_def
  skips_def saves_def archives_def generations_def created_outputs_def
  fetch_fails_def task_succeeds_def generated_def Let_def

lemmas eval_env = offline_env_def page_env_def page_response_def not_found_response_def
  empty_world_def inbox_def half_env_def locked_env_def not_found_env_def tool_reply_env_def
  text_reply_env_def empty_reply_env_def trend_env_def model_down_env_def

lemma upt_2: "[0..<2] = [0, 1]"
  by (simp add: upt_rec)

lemma twin_links:
  "parseMarkdownLinks twin_titles
     = [\<lparr>title = js ''A'', link = js ''https://example.com/a''\<rparr>,
        \<lparr>title = js ''A'', link = js ''https://example.com/b''\<rparr>]"
  by (simp add: twin_titles_def eval_regex eval_strings Let_def)

lemma two_links_parsed:
  "parseMarkdownLinks two_links
     = [\<lparr>title = js ''AI News'', link = js ''https://example.com/a''\<rparr>,
        \<lparr>title = js ''Gone'', link = js ''https://example.com/b''\<rparr>]"
  by (simp add: two_links_def eval_regex eval_strings Let_def)

lemma one_link_parsed:
  "parseMarkdownLinks one_link
     = [\<lparr>title = js ''AI News'', link = js ''https://example.com/a''\<rparr>]"
  by (simp add: one_link_def eval_regex eval_strings Let_def)

lemma decimal_now: "decimal 1767323045678 = js ''1767323045678''"
  by (simp add: decimal.simps js_def)

subsection \<open>The article fetcher\<close>

lemma fetch_try_bound: "fetch_try env url = Inr x \<Longrightarrow> length x \<le> 15000"
  by (auto simp: fetch_try_def split: sum.splits if_splits parsed_article.splits option.splits)

text \<open>
  C3. \<^verbatim>\<open>fetchArticleContent\<close> never throws to its caller: for every URL, environment
  and world its result is a string, which is the excerpt of the \<^verbatim>\<open>try\<close> block, of at
  most 15000 code units, or, whenever the block throws, the sentinel. The block throws
  on a transport error, on a status that is not a success, when the body cannot be read,
  and when JSDOM or Readability throws or gives no article or no text. The sentinel is
  \<^verbatim>\<open>[Failed to fetch content from\<close>, the requested URL and \<^verbatim>\<open>]\<close>.
\<close>

theorem fetchArticleContent_never_throws:
  "snd (fetchArticleContent env url w)
     = Inr (case fetch_try env url of Inr excerpt \<Rightarrow> excerpt | Inl e \<Rightarrow> fetch_sentinel url)
   \<and> (\<forall>excerpt. fetch_try env url = Inr excerpt \<longrightarrow> length excerpt \<le> 15000)
   \<and> (\<forall>e. http_fetch env url = Inl e \<longrightarrow> isl (fetch_try env url))
   \<and> (\<forall>r. http_fetch env url = Inr r \<and> \<not> ok r \<longrightarrow> isl (fetch_try env url))
   \<and> (\<forall>r html. http_fetch env url = Inr r \<and> ok r \<and> response_text r = Inr html
          \<and> (isl (readability_parse env html url)
              \<or> readability_parse env html url = Inr NullArticle
              \<or> readability_parse env html url = Inr (Article None)
              \<or> readability_parse env html url = Inr (Article (Some [])))
        \<longrightarrow> isl (fetch_try env url))
   \<and> (\<forall>r e. http_fetch env url = Inr r \<and> ok r \<and> response_text r = Inl e
        \<longrightarrow> isl (fetch_try env url))
   \<and> fetch_sentinel url = js ''[Failed to fetch content from '' @ url @ js '']''
   \<and> startsWith (fetch_sentinel url) (js ''[Failed to fetch content from '')"
proof -
  have 1: "snd (fetchArticleContent env url w)
     = Inr (case fetch_try env url of Inr excerpt \<Rightarrow> excerpt | Inl e \<Rightarrow> fetch_sentinel url)"
    by (simp add: fetchArticleContent_result fetched_def)
  have 2: "\<forall>excerpt. fetch_try env url = Inr excerpt \<longrightarrow> length excerpt \<le> 15000"
    by (auto dest: fetch_try_bound)
  have 3: "\<forall>e. http_fetch env url = Inl e \<longrightarrow> isl (fetch_try env url)"
    by (simp add: fetch_try_def)
  have 4: "\<forall>r. http_fetch env url = Inr r \<and> \<not> ok r \<longrightarrow> isl (fetch_try env url)"
    by (simp add: fetch_try_def)
  have 5: "\<forall>r html. http_fetch env url = Inr r \<and> ok r \<and> response_text r = Inr html
          \<and> (isl (readability_parse env html url)
              \<or> readability_parse env html url = Inr NullArticle
              \<or> readability_parse env html url = Inr (Article None)
              \<or> readability_parse env html url = Inr (Article (Some [])))
        \<longrightarrow> isl (fetch_try env url)"
    by (auto simp: fetch_try_def split: sum.splits)
  have 6: "\<forall>r e. http_fetch env url = Inr r \<and> ok r \<and> response_text r = Inl e
        \<longrightarrow> isl (fetch_try env url)"
    by (simp add: fetch_try_def)
  have 7: "fetch_sentinel url = js ''[Failed to fetch content from '' @ url @ js '']''"
    by (simp add: fetch_sentinel_def)
  have 8: "startsWith (fetch_sentinel url) (js ''[Failed to fetch content from '')"
    by (simp add: fetch_sentinel_def startsWith_def js_def)
  from 1 2 3 4 5 6 7 8 show ?thesis by blast
qed

theorem fetchArticleContent_never_throws_witness:
  "http_fetch not_found_env (js ''https://example.com/a'') = Inr not_found_response
   \<and> \<not> ok not_found_response
   \<and> snd (fetchArticleContent not_found_env (js ''https://example.com/a'') empty_world)
       = Inr (js ''[Failed to fetch content from https://example.com/a]'')
   \<and> snd (fetchArticleContent (page_env (js ''  Body text  '')) (js ''https://example.com/a'') empty_world)
       = Inr (js ''Body text'')
   \<and> length (js ''Body text'') \<le> 15000"
proof -
  have h: "http_fetch not_found_env (js ''https://example.com/a'') = Inr not_found_response"
    "\<not> ok not_found_response"
    by (simp_all add: eval_env)
  from fetchArticleContent_never_throws[of not_found_env "js ''https://example.com/a''" empty_world] h
  have f: "isl (fetch_try not_found_env (js ''https://example.com/a''))" by blast
  from fetchArticleContent_never_throws[of not_found_env "js ''https://example.com/a''" empty_world]
  have "snd (fetchArticleContent not_found_env (js ''https://example.com/a'') empty_world)
          = Inr (case fetch_try not_found_env (js ''https://example.com/a'') of
                   Inr excerpt \<Rightarrow> excerpt | Inl e \<Rightarrow> fetch_sentinel (js ''https://example.com/a''))"
    by blast
  with f have a: "snd (fetchArticleContent not_found_env (js ''https://example.com/a'') empty_world)
          = Inr (fetch_sentinel (js ''https://example.com/a''))"
    by (cases "fetch_try not_found_env (js ''https://example.com/a'')") simp_all
  have t: "fetch_try (page_env (js ''  Body text  '')) (js ''https://example.com/a'') = Inr (js ''Body text'')"
    by (simp add: fetch_try_def eval_env eval_strings)
  from fetchArticleContent_never_throws[of "page_env (js ''  Body text  '')" "js ''https://example.com/a''" empty_world]
  have b: "snd (fetchArticleContent (page_env (js ''  Body text  '')) (js ''https://example.com/a'') empty_world)
       = Inr (js ''Body text'')" and c: "length (js ''Body text'') \<le> 15000"
    using t by auto
  show ?thesis using h a b c by (simp add: fetch_sentinel_def js_def)
qed

subsection \<open>The content generator\<close>

text \<open>
  C8. In mock mode \<^verbatim>\<open>generateContent\<close> returns, for every title, excerpt and link, the
  placeholder \<^verbatim>\<open># Mock Content for\<close>, the title, and the fixed closing line; it only
  writes its line to the console and issues no network call (the excerpt, the link and
  the model endpoint play no part in the result).
\<close>

theorem generateContent_mock:
  "MOCK_MODE env \<Longrightarrow>
     generateContent env articleTitle articleContent sourceLink w
       = (console_log (LogGenerating articleTitle) w,
          Inr (Str (js ''# Mock Content for '' @ articleTitle
                      @ js ''\<newline>\<newline>Generated in Mock Mode.'')))
     \<and> network (fst (generateContent env articleTitle articleContent sourceLink w)) = network w"
  by (simp add: generateContent_def Let_def)

theorem generateContent_mock_witness:
  "MOCK_MODE offline_env
   \<and> snd (generateContent offline_env (js ''AI News'') (js ''Body'') (js ''https://example.com/a'') empty_world)
       = Inr (Str (js ''# Mock Content for AI News\<newline>\<newline>Generated in Mock Mode.''))
   \<and> network (fst (generateContent offline_env (js ''AI News'') (js ''Body'')
        (js ''https://example.com/a'') empty_world)) = []"
proof -
  have m: "MOCK_MODE offline_env" by (simp add: eval_env)
  have n: "network empty_world = []" by (simp add: eval_env)
  show ?thesis
    using generateContent_mock[OF m, of "js ''AI News''" "js ''Body''" "js ''https://example.com/a''" empty_world] m n
    by (simp add: js_def)
qed

lemma analyzeHotList_result: "snd (analyzeHotList env items w) = analysed env items"
  by (simp add: analyzeHotList_def analysed_def Let_def split: sum.splits)

text \<open>
  C4 (as amended). In live mode \<^verbatim>\<open>generateContent\<close> and \<^verbatim>\<open>analyzeHotList\<close> return the
  text of the first segment of the model's reply, unchanged, when that segment is a text
  segment. An error of the model call is propagated, and so is the \<^verbatim>\<open>TypeError\<close> of an
  empty content list. A first segment that is not text is no error: both functions
  return \<^verbatim>\<open>undefined\<close>.
\<close>

theorem live_reply_first_segment:
  "\<not> MOCK_MODE env \<Longrightarrow>
     snd (generateContent env articleTitle articleContent sourceLink w)
       = (case messages_create env (generation_request articleTitle articleContent) of
            Inl e \<Rightarrow> Inl e
          | Inr [] \<Rightarrow> Inl TypeError
          | Inr (TextBlock t # _) \<Rightarrow> Inr (Str t)
          | Inr (NonTextBlock # _) \<Rightarrow> Inr Undefined)
     \<and> snd (analyzeHotList env items w)
       = (case messages_create env (analysis_request items) of
            Inl e \<Rightarrow> Inl e
          | Inr [] \<Rightarrow> Inl TypeError
          | Inr (TextBlock t # _) \<Rightarrow> Inr (Str t)
          | Inr (NonTextBlock # _) \<Rightarrow> Inr Undefined)"
  by (simp add: generateContent_def analyzeHotList_def Let_def first_text_def
      split: sum.splits list.splits content_block.splits)

theorem live_reply_first_segment_witness:
  "\<not> MOCK_MODE text_reply_env
   \<and> snd (generateContent text_reply_env (js ''AI News'') (js ''Body'') (js ''https://example.com/a'') empty_world)
       = Inr (Str (js ''# Post''))
   \<and> snd (analyzeHotList text_reply_env [] empty_world) = Inr (Str (js ''# Post''))
   \<and> \<not> MOCK_MODE empty_reply_env
   \<and> snd (generateContent empty_reply_env (js ''AI News'') (js ''Body'') (js ''https://example.com/a'') empty_world)
       = Inl TypeError
   \<and> snd (analyzeHotList empty_reply_env [] empty_world) = Inl TypeError"
proof -
  have m: "\<not> MOCK_MODE text_reply_env" "\<not> MOCK_MODE empty_reply_env" by (simp_all add: eval_env)
  have r: "messages_create text_reply_env = (\<lambda>_. Inr [TextBlock (js ''# Post''), NonTextBlock])"
    "messages_create empty_reply_env = (\<lambda>_. Inr [])"
    by (simp_all add: eval_env)
  show ?thesis
    using live_reply_first_segment[OF m(1), of "js ''AI News''" "js ''Body''" "js ''https://example.com/a''" empty_world "[]"]
      live_reply_first_segment[OF m(2), of "js ''AI News''" "js ''Body''" "js ''https://example.com/a''" empty_world "[]"]
      m
    by (simp add: r)
qed

text \<open>
  C4 as stated fails for a reply whose first segment is not text: the \<^verbatim>\<open>any\<close> cast
  reads a property the segment does not have, and both functions return \<^verbatim>\<open>undefined\<close>
  to their caller instead of raising an error.
\<close>

theorem non_text_reply_returns_undefined:
  "\<not> MOCK_MODE tool_reply_env
   \<and> messages_create tool_reply_env (generation_request (js ''AI News'') (js ''Body''))
       = Inr [NonTextBlock, TextBlock (js ''late'')]
   \<and> snd (generateContent tool_reply_env (js ''AI News'') (js ''Body'') (js ''https://example.com/a'') empty_world)
       = Inr Undefined
   \<and> messages_create tool_reply_env (analysis_request []) = Inr [NonTextBlock, TextBlock (js ''late'')]
   \<and> snd (analyzeHotList tool_reply_env [] empty_world) = Inr Undefined"
  by (simp add: generateContent_def analyzeHotList_def Let_def first_text_def eval_env)


subsection \<open>The task of one article\<close>

text \<open>
  C10. A task skips generation and saving exactly when the string the fetcher returned
  starts with \<^verbatim>\<open>[Failed\<close>. When it does, the task logs the skip, hands nothing to
  the generator, saves nothing and leaves the files and the success counter as they were.
  When it does not, the task logs no skip and hands the article to the generator; if the
  generator returns a value, the task writes the post to its output path, and if that
  write raises no error the post is saved: the file holds the provenance header with the
  generated text, the save is logged and the counter goes up by one. Only an error of
  the generator or of the write leaves the files and the counter unchanged then. The
  test is on the prefix, not on the sentinel: an article that was fetched without an
  error and whose extracted text begins with \<^verbatim>\<open>[Failed\<close> is skipped like a failed
  fetch and gets no output file.
\<close>

theorem task_skips_on_failed_prefix:
  "skips (fst (article_task env filename n t (w, k)))
     = skips w + (if startsWith (fetched env (link (snd t))) (js ''[Failed'') then 1 else 0)
   \<and> generations (fst (article_task env filename n t (w, k)))
     = generations w + (if startsWith (fetched env (link (snd t))) (js ''[Failed'') then 0 else 1)
   \<and> (startsWith (fetched env (link (snd t))) (js ''[Failed'') \<longrightarrow>
        files (fst (article_task env filename n t (w, k))) = files w
        \<and> saves (fst (article_task env filename n t (w, k))) = saves w
        \<and> snd (article_task env filename n t (w, k)) = k)
   \<and> (\<forall>excerpt. fetch_try env (link (snd t)) = Inr excerpt \<and> startsWith excerpt (js ''[Failed'') \<longrightarrow>
        fetched env (link (snd t)) = excerpt
        \<and> skips (fst (article_task env filename n t (w, k))) = skips w + 1
        \<and> files (fst (article_task env filename n t (w, k))) = files w)
   \<and> (\<not> startsWith (fetched env (link (snd t))) (js ''[Failed'') \<longrightarrow>
        (case generated env (title (snd t)) (fetched env (link (snd t))) of
           Inl e \<Rightarrow>
             files (fst (article_task env filename n t (w, k))) = files w
             \<and> saves (fst (article_task env filename n t (w, k))) = saves w
             \<and> snd (article_task env filename n t (w, k)) = k
         | Inr generatedContent \<Rightarrow>
             (case write_error env (output_path env t) of
                Some e \<Rightarrow>
                  files (fst (article_task env filename n t (w, k))) = files w
                  \<and> saves (fst (article_task env filename n t (w, k))) = saves w
                  \<and> snd (article_task env filename n t (w, k)) = k
              | None \<Rightarrow>
                  files (fst (article_task env filename n t (w, k)))
                    = (files w)(output_path env t
                                  \<mapsto> final_content env filename t generatedContent)
                  \<and> saves (fst (article_task env filename n t (w, k))) = saves w + 1
                  \<and> snd (article_task env filename n t (w, k)) = k + 1)))"
proof (cases "startsWith (fetched env (link (snd t))) (js ''[Failed'')")
  case True
  then show ?thesis
    by (auto simp: article_task_skip fetchArticleContent_world fetched_def)
next
  case False
  have logs: "skips (fst (article_task env filename n t (w, k))) = skips w"
    "generations (fst (article_task env filename n t (w, k))) = generations w + 1"
    by (simp_all add: article_task_go[OF False] Let_def fetchArticleContent_world generateContent_world
          writeFileSync_def split: sum.splits option.splits)
  have go: "case generated env (title (snd t)) (fetched env (link (snd t))) of
           Inl e \<Rightarrow>
             files (fst (article_task env filename n t (w, k))) = files w
             \<and> saves (fst (article_task env filename n t (w, k))) = saves w
             \<and> snd (article_task env filename n t (w, k)) = k
         | Inr generatedContent \<Rightarrow>
             (case write_error env (output_path env t) of
                Some e \<Rightarrow>
                  files (fst (article_task env filename n t (w, k))) = files w
                  \<and> saves (fst (article_task env filename n t (w, k))) = saves w
                  \<and> snd (article_task env filename n t (w, k)) = k
              | None \<Rightarrow>
                  files (fst (article_task env filename n t (w, k)))
                    = (files w)(output_path env t
                                  \<mapsto> final_content env filename t generatedContent)
                  \<and> saves (fst (article_task env filename n t (w, k))) = saves w + 1
                  \<and> snd (article_task env filename n t (w, k)) = k + 1)"
    by (simp add: article_task_go[OF False] Let_def generateContent_result fetchArticleContent_world
        generateContent_world writeFileSync_def split: sum.splits option.splits)
  from False logs go show ?thesis by (auto simp: fetched_def)
qed

theorem task_skips_on_failed_prefix_witness:
  "fetch_try (page_env (js ''[Failed experiments] and what we learned'')) (js ''https://example.com/p'')
     = Inr (js ''[Failed experiments] and what we learned'')
   \<and> startsWith (js ''[Failed experiments] and what we learned'') (js ''[Failed'')
   \<and> skips (fst (article_task (page_env (js ''[Failed experiments] and what we learned''))
        (js ''links.md'') 1 (0, \<lparr>title = js ''Post'', link = js ''https://example.com/p''\<rparr>)
        (empty_world, 0))) = 1
   \<and> generations (fst (article_task (page_env (js ''[Failed experiments] and what we learned''))
        (js ''links.md'') 1 (0, \<lparr>title = js ''Post'', link = js ''https://example.com/p''\<rparr>)
        (empty_world, 0))) = 0
   \<and> files (fst (article_task (page_env (js ''[Failed experiments] and what we learned''))
        (js ''links.md'') 1 (0, \<lparr>title = js ''Post'', link = js ''https://example.com/p''\<rparr>)
        (empty_world, 0))) = Map.empty
   \<and> fetched (page_env (js ''Body'')) (js ''https://example.com/p'') = js ''Body''
   \<and> \<not> startsWith (js ''Body'') (js ''[Failed'')
   \<and> skips (fst (article_task (page_env (js ''Body''))
        (js ''links.md'') 1 (0, \<lparr>title = js ''Post'', link = js ''https://example.com/p''\<rparr>)
        (empty_world, 0))) = 0
   \<and> generations (fst (article_task (page_env (js ''Body''))
        (js ''links.md'') 1 (0, \<lparr>title = js ''Post'', link = js ''https://example.com/p''\<rparr>)
        (empty_world, 0))) = 1
   \<and> saves (fst (article_task (page_env (js ''Body''))
        (js ''links.md'') 1 (0, \<lparr>title = js ''Post'', link = js ''https://example.com/p''\<rparr>)
        (empty_world, 0))) = 1
   \<and> snd (article_task (page_env (js ''Body''))
        (js ''links.md'') 1 (0, \<lparr>title = js ''Post'', link = js ''https://example.com/p''\<rparr>)
        (empty_world, 0)) = 1
   \<and> files (fst (article_task (page_env (js ''Body''))
        (js ''links.md'') 1 (0, \<lparr>title = js ''Post'', link = js ''https://example.com/p''\<rparr>)
        (empty_world, 0)))
       = [(OUTPUT_DIR, js ''list_2026-01-02T03-04-05_Post.md'')
            \<mapsto> final_content (page_env (js ''Body'')) (js ''links.md'')
                 (0, \<lparr>title = js ''Post'', link = js ''https://example.com/p''\<rparr>)
                 (Str (js ''# Mock Content for Post\<newline>\<newline>Generated in Mock Mode.''))]"
proof -
  have t: "fetch_try (page_env (js ''[Failed experiments] and what we learned'')) (js ''https://example.com/p'')
     = Inr (js ''[Failed experiments] and what we learned'')"
    by (simp add: fetch_try_def eval_env eval_strings)
  have p: "startsWith (js ''[Failed experiments] and what we learned'') (js ''[Failed'')"
    by (simp add: eval_strings)
  have f: "fetched (page_env (js ''[Failed experiments] and what we learned'')) (js ''https://example.com/p'')
     = js ''[Failed experiments] and what we learned''"
    by (simp add: fetched_def t)
  have z: "skips empty_world = 0" "generations empty_world = 0" "files empty_world = Map.empty"
    "saves empty_world = 0"
    by (simp_all add: eval_env skips_def generations_def saves_def)
  have skip: "skips (fst (article_task (page_env (js ''[Failed experiments] and what we learned''))
        (js ''links.md'') 1 (0, \<lparr>title = js ''Post'', link = js ''https://example.com/p''\<rparr>)
        (empty_world, 0))) = 1
   \<and> generations (fst (article_task (page_env (js ''[Failed experiments] and what we learned''))
        (js ''links.md'') 1 (0, \<lparr>title = js ''Post'', link = js ''https://example.com/p''\<rparr>)
        (empty_world, 0))) = 0
   \<and> files (fst (article_task (page_env (js ''[Failed experiments] and what we learned''))
        (js ''links.md'') 1 (0, \<lparr>title = js ''Post'', link = js ''https://example.com/p''\<rparr>)
        (empty_world, 0))) = Map.empty"
    using task_skips_on_failed_prefix[of "page_env (js ''[Failed experiments] and what we learned'')"
        "js ''links.md''" 1 "(0, \<lparr>title = js ''Post'', link = js ''https://example.com/p''\<rparr>)"
        empty_world 0] t p z
    by (simp add: f)
  have f2: "fetched (page_env (js ''Body'')) (js ''https://example.com/p'') = js ''Body''"
    by (simp add: fetched_def fetch_try_def eval_env eval_strings)
  have np: "\<not> startsWith (js ''Body'') (js ''[Failed'')"
    by (simp add: eval_strings)
  have g: "generated (page_env (js ''Body'')) (js ''Post'') (js ''Body'')
             = Inr (Str (js ''# Mock Content for Post\<newline>\<newline>Generated in Mock Mode.''))"
    by (simp add: generated_def eval_env js_def)
  have op: "output_path (page_env (js ''Body''))
              (0, \<lparr>title = js ''Post'', link = js ''https://example.com/p''\<rparr>)
            = (OUTPUT_DIR, js ''list_2026-01-02T03-04-05_Post.md'')"
    by (simp add: output_path_def date_str_def dashed_def safe_title_def is_title_char_def
        eval_env js_def)
  have wr: "write_error (page_env (js ''Body'')) (OUTPUT_DIR, js ''list_2026-01-02T03-04-05_Post.md'')
              = None"
    by (simp add: eval_env)
  have go: "skips (fst (article_task (page_env (js ''Body''))
        (js ''links.md'') 1 (0, \<lparr>title = js ''Post'', link = js ''https://example.com/p''\<rparr>)
        (empty_world, 0))) = 0
   \<and> generations (fst (article_task (page_env (js ''Body''))
        (js ''links.md'') 1 (0, \<lparr>title = js ''Post'', link = js ''https://example.com/p''\<rparr>)
        (empty_world, 0))) = 1
   \<and> saves (fst (article_task (page_env (js ''Body''))
        (js ''links.md'') 1 (0, \<lparr>title = js ''Post'', link = js ''https://example.com/p''\<rparr>)
        (empty_world, 0))) = 1
   \<and> snd (article_task (page_env (js ''Body''))
        (js ''links.md'') 1 (0, \<lparr>title = js ''Post'', link = js ''https://example.com/p''\<rparr>)
        (empty_world, 0)) = 1
   \<and> files (fst (article_task (page_env (js ''Body''))
        (js ''links.md'') 1 (0, \<lparr>title = js ''Post'', link = js ''https://example.com/p''\<rparr>)
        (empty_world, 0)))
       = [(OUTPUT_DIR, js ''list_2026-01-02T03-04-05_Post.md'')
            \<mapsto> final_content (page_env (js ''Body'')) (js ''links.md'')
                 (0, \<lparr>title = js ''Post'', link = js ''https://example.com/p''\<rparr>)
                 (Str (js ''# Mock Content for Post\<newline>\<newline>Generated in Mock Mode.''))]"
    using task_skips_on_failed_prefix[of "page_env (js ''Body'')"
        "js ''links.md''" 1 "(0, \<lparr>title = js ''Post'', link = js ''https://example.com/p''\<rparr>)"
        empty_world 0] np z
    by (simp add: f2 g op wr)
  from t p skip f2 np go show ?thesis by blast
qed

subsection \<open>The batch of an input file\<close>

text \<open>
  C1 (as amended). Take an input file that is present after the wait and whose reading
  and renaming raise no error, whose extraction yields \<open>N \<ge> 1\<close> links, of which \<open>M\<close>
  fail fetch while each of the others is fetched, generated and written without an error;
  the scheduler runs every task once, in any order. Then \<^verbatim>\<open>processInputFile\<close>
  skips exactly \<open>M\<close> tasks, saves exactly \<open>N - M\<close> posts (one write each), and archives
  the input file exactly once, under the name of the epoch milliseconds, an underscore
  and the original name. The output files it creates are the paths of the \<open>N - M\<close> writes
  that did not exist before: at most \<open>N - M\<close> files, and exactly \<open>N - M\<close> when these paths
  are pairwise distinct and new.
\<close>

theorem processInputFile_batch:
  assumes dir: "fst filePath = INPUT_DIR"
    and present: "files w filePath = Some fileContent"
    and rd: "read_error env filePath = None"
    and rn: "rename_error env filePath = None"
    and links: "parseMarkdownLinks fileContent \<noteq> []"
    and sched: "mset (schedule env (tasks_of (parseMarkdownLinks fileContent)))
                  = mset (tasks_of (parseMarkdownLinks fileContent))"
    and each: "\<forall>t \<in> set (tasks_of (parseMarkdownLinks fileContent)).
                 fetch_fails env (snd t) \<or> task_succeeds env t"
  shows "let articles = parseMarkdownLinks fileContent;
             N = length articles;
             M = length (filter (fetch_fails env) articles);
             written = filter (\<lambda>t. \<not> fetch_fails env (snd t)) (tasks_of articles);
             w' = processInputFile env filePath w
         in skips w' = skips w + M
          \<and> saves w' = saves w + (N - M)
          \<and> length written = N - M
          \<and> archives w' = archives w + 1
          \<and> files w' filePath = None
          \<and> files w' (ARCHIVE_DIR, decimal (date_now env) @ js ''_'' @ snd filePath)
                = Some fileContent
          \<and> created_outputs w w' = output_path env ` set written - dom (files w)
          \<and> card (created_outputs w w') \<le> N - M
          \<and> (distinct (map (output_path env) written)
               \<and> (\<forall>t \<in> set written. files w (output_path env t) = None)
               \<longrightarrow> card (created_outputs w w') = N - M)"
proof -
  define articles where "articles = parseMarkdownLinks fileContent"
  define M where "M = length (filter (fetch_fails env) articles)"
  define written where "written = filter (\<lambda>t. \<not> fetch_fails env (snd t)) (tasks_of articles)"
  define st where "st = settled env filePath fileContent w"
  define w5 where "w5 = console_log (LogArchived (archive_path env (snd filePath)))
                               ((fst st)\<lparr>files := ((files (fst st))(filePath := None))
                                            (archive_path env (snd filePath) \<mapsto> fileContent)\<rparr>)"
  define w' where "w' = processInputFile env filePath w"
  have w': "w' = (if snd st > 0 then runVerifySkill env w5 else w5)"
    using processInputFile_links[OF dir present rd links] rn
    by (simp add: w'_def Let_def st_def w5_def)
  note sc = settled_counts[OF sched each, where filePath = filePath and w = w, folded st_def articles_def]
  note sf = settled_frame[where env = env and filePath = filePath and fileContent = fileContent and w = w, folded st_def]
  have ne: "filePath \<noteq> archive_path env (snd filePath)"
    using dir by (metis archive_path_dir directory.distinct(3))
  have fw': "files w' = ((files (fst st))(filePath := None))
                          (archive_path env (snd filePath) \<mapsto> fileContent)"
    by (simp add: w' w5_def runVerifySkill_world)
  have wlen: "length written = length articles - M"
    using sum_length_filter_compl[of "fetch_fails env" articles]
    by (simp add: written_def tasks_of_def M_def filter_zip_snd[of "\<lambda>a. \<not> fetch_fails env a"])
  have sk: "skips w' = skips w + M"
    using sc(2) by (simp add: w' w5_def runVerifySkill_world M_def)
  have sv: "saves w' = saves w + (length articles - M)"
    using sc(3) by (simp add: w' w5_def runVerifySkill_world M_def)
  have ar: "archives w' = archives w + 1"
    using sf(2) by (simp add: w' w5_def runVerifySkill_world)
  have gone: "files w' filePath = None" using ne by (simp add: fw')
  have kept: "files w' (ARCHIVE_DIR, decimal (date_now env) @ js ''_'' @ snd filePath) = Some fileContent"
    by (simp add: fw' archive_path_def)
  have dom3: "dom (files (fst st)) = dom (files w) \<union> output_path env ` set written"
    using sc(4) by (simp add: written_def)
  have co: "created_outputs w w' = output_path env ` set written - dom (files w)"
    by (rule created_outputs_archived[OF dir fw' dom3])
  have "card (created_outputs w w') \<le> card (output_path env ` set written)"
    unfolding co by (intro card_mono) auto
  also have "\<dots> \<le> card (set written)" by (rule card_image_le) simp
  also have "\<dots> \<le> length written" by (rule card_length)
  finally have le: "card (created_outputs w w') \<le> length articles - M" by (simp add: wlen)
  have eq: "card (created_outputs w w') = length articles - M"
    if d: "distinct (map (output_path env) written)"
      and fresh: "\<forall>t \<in> set written. files w (output_path env t) = None"
  proof -
    from fresh have "output_path env ` set written - dom (files w) = output_path env ` set written"
      by (auto simp: dom_def)
    then have "card (created_outputs w w') = card (set (map (output_path env) written))"
      by (simp add: co)
    also have "\<dots> = length (map (output_path env) written)" using d by (rule distinct_card)
    finally show ?thesis by (simp add: wlen)
  qed
  show ?thesis
    unfolding Let_def
    using sk sv wlen ar gone kept co le eq
    by (simp add: articles_def M_def written_def w'_def)
qed

theorem processInputFile_batch_witness:
  "skips (processInputFile half_env (INPUT_DIR, js ''links.md'') (inbox two_links)) = 1
   \<and> saves (processInputFile half_env (INPUT_DIR, js ''links.md'') (inbox two_links)) = 1
   \<and> archives (processInputFile half_env (INPUT_DIR, js ''links.md'') (inbox two_links)) = 1
   \<and> files (processInputFile half_env (INPUT_DIR, js ''links.md'') (inbox two_links))
        (INPUT_DIR, js ''links.md'') = None
   \<and> files (processInputFile half_env (INPUT_DIR, js ''links.md'') (inbox two_links))
        (ARCHIVE_DIR, js ''1767323045678_links.md'') = Some two_links
   \<and> card (created_outputs (inbox two_links)
        (processInputFile half_env (INPUT_DIR, js ''links.md'') (inbox two_links))) = 1"
proof -
  have dir: "fst (INPUT_DIR, js ''links.md'') = INPUT_DIR" by simp
  have present: "files (inbox two_links) (INPUT_DIR, js ''links.md'') = Some two_links"
    by (simp add: eval_env)
  have rd: "read_error half_env (INPUT_DIR, js ''links.md'') = None"
    and rn: "rename_error half_env (INPUT_DIR, js ''links.md'') = None"
    by (simp_all add: eval_env)
  have links: "parseMarkdownLinks two_links \<noteq> []" by (simp add: two_links_parsed)
  have sched: "mset (schedule half_env (tasks_of (parseMarkdownLinks two_links)))
                 = mset (tasks_of (parseMarkdownLinks two_links))"
    by (simp add: eval_env)
  have each: "\<forall>t \<in> set (tasks_of (parseMarkdownLinks two_links)).
                 fetch_fails half_env (snd t) \<or> task_succeeds half_env t"
    by (simp add: two_links_parsed tasks_of_def upt_2 fetch_fails_def task_succeeds_def
        fetch_try_def generated_def output_path_def eval_env eval_strings)
  have M: "length (filter (fetch_fails half_env) (parseMarkdownLinks two_links)) = 1"
    by (simp add: two_links_parsed fetch_fails_def fetch_try_def eval_env eval_strings)
  have fresh: "\<forall>t \<in> set (filter (\<lambda>t. \<not> fetch_fails half_env (snd t))
                              (tasks_of (parseMarkdownLinks two_links))).
                 files (inbox two_links) (output_path half_env t) = None"
    by (simp add: eval_env output_path_def)
  have d: "distinct (map (output_path half_env)
             (filter (\<lambda>t. \<not> fetch_fails half_env (snd t)) (tasks_of (parseMarkdownLinks two_links))))"
    by (simp add: two_links_parsed tasks_of_def upt_2 fetch_fails_def fetch_try_def eval_env eval_strings)
  have N: "length (parseMarkdownLinks two_links) = 2" by (simp add: two_links_parsed)
  have z: "skips (inbox two_links) = 0" "saves (inbox two_links) = 0" "archives (inbox two_links) = 0"
    by (simp_all add: eval_env skips_def saves_def archives_def)
  have now: "decimal (date_now half_env) @ js ''_'' @ js ''links.md'' = js ''1767323045678_links.md''"
    by (simp add: eval_env decimal_now js_def)
  note r = processInputFile_batch[OF dir present rd rn links sched each, unfolded Let_def]
  from r d fresh
  have c: "card (created_outputs (inbox two_links)
             (processInputFile half_env (INPUT_DIR, js ''links.md'') (inbox two_links)))
           = length (parseMarkdownLinks two_links)
               - length (filter (fetch_fails half_env) (parseMarkdownLinks two_links))"
    by blast
  from r
  have "skips (processInputFile half_env (INPUT_DIR, js ''links.md'') (inbox two_links))
          = skips (inbox two_links)
              + length (filter (fetch_fails half_env) (parseMarkdownLinks two_links))"
    and "saves (processInputFile half_env (INPUT_DIR, js ''links.md'') (inbox two_links))
          = saves (inbox two_links) + (length (parseMarkdownLinks two_links)
              - length (filter (fetch_fails half_env) (parseMarkdownLinks two_links)))"
    and "archives (processInputFile half_env (INPUT_DIR, js ''links.md'') (inbox two_links))
          = archives (inbox two_links) + 1"
    and "files (processInputFile half_env (INPUT_DIR, js ''links.md'') (inbox two_links))
          (INPUT_DIR, js ''links.md'') = None"
    and "files (processInputFile half_env (INPUT_DIR, js ''links.md'') (inbox two_links))
          (ARCHIVE_DIR, decimal (date_now half_env) @ js ''_'' @ snd (INPUT_DIR, js ''links.md''))
          = Some two_links"
    by blast+
  then show ?thesis using c M N z now by simp
qed

text \<open>
  C1 as stated fails where two writes of a batch go to the same path: with two links of
  the same title, both fetched, generated and written without an error within the same
  second (\<open>N = 2\<close>, \<open>M = 0\<close>), both posts are saved but the second write replaces the
  file of the first, and the batch has created one output file, not two.
\<close>

theorem processInputFile_collision:
  "length (parseMarkdownLinks twin_titles) = 2
   \<and> length (filter (fetch_fails (page_env (js ''Body''))) (parseMarkdownLinks twin_titles)) = 0
   \<and> task_succeeds (page_env (js ''Body'')) (0, \<lparr>title = js ''A'', link = js ''https://example.com/a''\<rparr>)
   \<and> task_succeeds (page_env (js ''Body'')) (1, \<lparr>title = js ''A'', link = js ''https://example.com/b''\<rparr>)
   \<and> skips (processInputFile (page_env (js ''Body'')) (INPUT_DIR, js ''links.md'') (inbox twin_titles)) = 0
   \<and> saves (processInputFile (page_env (js ''Body'')) (INPUT_DIR, js ''links.md'') (inbox twin_titles)) = 2
   \<and> created_outputs (inbox twin_titles)
        (processInputFile (page_env (js ''Body'')) (INPUT_DIR, js ''links.md'') (inbox twin_titles))
       = {(OUTPUT_DIR, js ''list_2026-01-02T03-04-05_A.md'')}
   \<and> card (created_outputs (inbox twin_titles)
        (processInputFile (page_env (js ''Body'')) (INPUT_DIR, js ''links.md'') (inbox twin_titles)))
       = 1"
proof -
  have co: "created_outputs (inbox twin_titles)
        (processInputFile (page_env (js ''Body'')) (INPUT_DIR, js ''links.md'') (inbox twin_titles))
       = {(OUTPUT_DIR, js ''list_2026-01-02T03-04-05_A.md'')}"
    by (auto simp: eval_world eval_env twin_links upt_2 eval_strings split: if_splits)
  have rest: "length (parseMarkdownLinks twin_titles) = 2
   \<and> length (filter (fetch_fails (page_env (js ''Body''))) (parseMarkdownLinks twin_titles)) = 0
   \<and> task_succeeds (page_env (js ''Body'')) (0, \<lparr>title = js ''A'', link = js ''https://example.com/a''\<rparr>)
   \<and> task_succeeds (page_env (js ''Body'')) (1, \<lparr>title = js ''A'', link = js ''https://example.com/b''\<rparr>)
   \<and> skips (processInputFile (page_env (js ''Body'')) (INPUT_DIR, js ''links.md'') (inbox twin_titles)) = 0
   \<and> saves (processInputFile (page_env (js ''Body'')) (INPUT_DIR, js ''links.md'') (inbox twin_titles)) = 2"
    by (simp add: eval_world eval_env twin_links upt_2 eval_strings)
  show ?thesis using rest by (simp add: co)
qed


text \<open>
  C2 (as amended). For an input file that is present after the wait and whose reading
  and renaming raise no error, the file stays in the input directory exactly when the
  extraction yields no item. In that case \<^verbatim>\<open>processInputFile\<close> leaves all files as they
  were (no output file, no archived file), issues no network call and spawns no
  verification command. Otherwise the file is gone from the input directory and stands
  in the archive directory under the name of the epoch milliseconds, an underscore and
  the original name, archived once.
\<close>

theorem processInputFile_archives_unless_no_links:
  assumes dir: "fst filePath = INPUT_DIR"
    and present: "files w filePath = Some fileContent"
    and rd: "read_error env filePath = None"
    and rn: "rename_error env filePath = None"
  shows "let w' = processInputFile env filePath w
         in (files w' filePath = Some fileContent) = (parseMarkdownLinks fileContent = [])
          \<and> (parseMarkdownLinks fileContent = [] \<longrightarrow>
                files w' = files w \<and> created_outputs w w' = {} \<and> archives w' = archives w
                \<and> spawned w' = spawned w \<and> network w' = network w)
          \<and> (parseMarkdownLinks fileContent \<noteq> [] \<longrightarrow>
                files w' filePath = None
                \<and> files w' (ARCHIVE_DIR, decimal (date_now env) @ js ''_'' @ snd filePath)
                      = Some fileContent
                \<and> archives w' = archives w + 1)"
proof (cases "parseMarkdownLinks fileContent = []")
  case True
  show ?thesis
    using True by (simp add: processInputFile_no_links[OF present rd True] present created_outputs_def)
next
  case False
  define st where "st = settled env filePath fileContent w"
  define w5 where "w5 = console_log (LogArchived (archive_path env (snd filePath)))
                               ((fst st)\<lparr>files := ((files (fst st))(filePath := None))
                                            (archive_path env (snd filePath) \<mapsto> fileContent)\<rparr>)"
  have w': "processInputFile env filePath w = (if snd st > 0 then runVerifySkill env w5 else w5)"
    using processInputFile_links[OF dir present rd False] rn
    by (simp add: Let_def st_def w5_def)
  have ne: "filePath \<noteq> archive_path env (snd filePath)"
    using dir by (metis archive_path_dir directory.distinct(3))
  have fw': "files (processInputFile env filePath w) = ((files (fst st))(filePath := None))
                          (archive_path env (snd filePath) \<mapsto> fileContent)"
    by (simp add: w' w5_def runVerifySkill_world)
  have ar: "archives (processInputFile env filePath w) = archives w + 1"
    using settled_frame(2)[where env = env and filePath = filePath and fileContent = fileContent and w = w]
    by (simp add: w' w5_def runVerifySkill_world st_def)
  have gone: "files (processInputFile env filePath w) filePath = None" using ne by (simp add: fw')
  have kept: "files (processInputFile env filePath w)
                (ARCHIVE_DIR, decimal (date_now env) @ js ''_'' @ snd filePath) = Some fileContent"
    by (simp add: fw' archive_path_def)
  show ?thesis using False ar gone kept by (simp add: Let_def)
qed

theorem processInputFile_archives_unless_no_links_witness:
  "(files (processInputFile offline_env (INPUT_DIR, js ''links.md'') (inbox (js ''no links here'')))
      (INPUT_DIR, js ''links.md'') = Some (js ''no links here''))
   \<and> parseMarkdownLinks (js ''no links here'') = []
   \<and> created_outputs (inbox (js ''no links here''))
        (processInputFile offline_env (INPUT_DIR, js ''links.md'') (inbox (js ''no links here''))) = {}
   \<and> spawned (processInputFile offline_env (INPUT_DIR, js ''links.md'') (inbox (js ''no links here''))) = 0
   \<and> archives (processInputFile offline_env (INPUT_DIR, js ''links.md'') (inbox (js ''no links here''))) = 0
   \<and> parseMarkdownLinks one_link \<noteq> []
   \<and> files (processInputFile offline_env (INPUT_DIR, js ''links.md'') (inbox one_link))
        (INPUT_DIR, js ''links.md'') = None
   \<and> files (processInputFile offline_env (INPUT_DIR, js ''links.md'') (inbox one_link))
        (ARCHIVE_DIR, js ''1767323045678_links.md'') = Some one_link
   \<and> archives (processInputFile offline_env (INPUT_DIR, js ''links.md'') (inbox one_link)) = 1"
proof -
  have dir: "fst (INPUT_DIR, js ''links.md'') = INPUT_DIR" by simp
  have io: "read_error offline_env (INPUT_DIR, js ''links.md'') = None"
    "rename_error offline_env (INPUT_DIR, js ''links.md'') = None"
    by (simp_all add: eval_env)
  have p0: "files (inbox (js ''no links here'')) (INPUT_DIR, js ''links.md'') = Some (js ''no links here'')"
    and p1: "files (inbox one_link) (INPUT_DIR, js ''links.md'') = Some one_link"
    by (simp_all add: eval_env)
  have n0: "parseMarkdownLinks (js ''no links here'') = []"
    by (simp add: eval_regex eval_strings)
  have z: "spawned (inbox (js ''no links here'')) = 0" "archives (inbox (js ''no links here'')) = 0"
    "archives (inbox one_link) = 0"
    by (simp_all add: eval_env archives_def)
  have n1: "parseMarkdownLinks one_link \<noteq> []" by (simp add: one_link_parsed)
  have now: "decimal (date_now offline_env) @ js ''_'' @ js ''links.md'' = js ''1767323045678_links.md''"
    by (simp add: eval_env decimal_now js_def)
  show ?thesis
    using processInputFile_archives_unless_no_links[OF dir p0 io]
      processInputFile_archives_unless_no_links[OF dir p1 io] n0 n1 z now p0
    by (simp add: Let_def)
qed

text \<open>
  C2 as stated fails: extraction yielding nothing is not the only case in which a
  detected file is not archived. When \<^verbatim>\<open>fs.renameSync\<close> throws, the outer
  \<^verbatim>\<open>catch\<close> clause logs the error; in \<open>locked_env\<close> a file with one valid link has its
  post saved and then stays in the input directory, with nothing in the archive.
\<close>

theorem processInputFile_rename_error:
  "length (parseMarkdownLinks one_link) = 1
   \<and> files (inbox one_link) (INPUT_DIR, js ''links.md'') = Some one_link
   \<and> files (processInputFile locked_env (INPUT_DIR, js ''links.md'') (inbox one_link))
        (INPUT_DIR, js ''links.md'') = Some one_link
   \<and> archives (processInputFile locked_env (INPUT_DIR, js ''links.md'') (inbox one_link)) = 0
   \<and> {p \<in> dom (files (processInputFile locked_env (INPUT_DIR, js ''links.md'') (inbox one_link))).
        fst p = ARCHIVE_DIR} = {}
   \<and> saves (processInputFile locked_env (INPUT_DIR, js ''links.md'') (inbox one_link)) = 1"
proof -
  have a: "{p \<in> dom (files (processInputFile locked_env (INPUT_DIR, js ''links.md'') (inbox one_link))).
        fst p = ARCHIVE_DIR} = {}"
    by (auto simp: eval_world eval_env one_link_parsed upt_rec eval_strings split: if_splits)
  have rest: "length (parseMarkdownLinks one_link) = 1
   \<and> files (inbox one_link) (INPUT_DIR, js ''links.md'') = Some one_link
   \<and> files (processInputFile locked_env (INPUT_DIR, js ''links.md'') (inbox one_link))
        (INPUT_DIR, js ''links.md'') = Some one_link
   \<and> archives (processInputFile locked_env (INPUT_DIR, js ''links.md'') (inbox one_link)) = 0
   \<and> saves (processInputFile locked_env (INPUT_DIR, js ''links.md'') (inbox one_link)) = 1"
    by (simp add: eval_world eval_env one_link_parsed upt_rec eval_strings)
  show ?thesis using rest by (simp add: a)
qed

subsection \<open>The hot-list fetcher\<close>


lemma trim_Nil [simp]: "trim [] = []"
  by (simp add: trim_def)







lemmas eval_trends = fetchHotList_def analyzeHotList_def run_def fail_run_def hot_item_of_def
  each_child_item_def full_link_def part_or_empty_def raw_filename_def report_filename_def
  report_content_def TOPHUB_URL_def MIDDLE_DOT_def hot_page_def first_text_def



subsection \<open>A run of Pipeline B\<close>

lemma fetchHotList_result: "snd (fetchHotList env w) = hot_list env"
  by (simp add: fetchHotList_def hot_list_def Let_def split: sum.splits)

lemma fetchHotList_files: "files (fst (fetchHotList env w)) = files w"
  by (simp add: fetchHotList_def Let_def split: sum.splits)

lemma analyzeHotList_files: "files (fst (analyzeHotList env items w)) = files w"
  by (simp add: analyzeHotList_def Let_def split: sum.splits)

lemma run_cases:
  "run env w =
     (case hot_list env of
        Inl e \<Rightarrow> fail_run e (fst (fetchHotList env w))
      | Inr items \<Rightarrow>
          let w2 = console_log (LogFetched (length items)) (fst (fetchHotList env w)) in
          (case write_error env (TRENDS_DIR, raw_filename env) of
             Some e \<Rightarrow> fail_run e w2
           | None \<Rightarrow>
               let w4 = console_log (LogSavedRaw (TRENDS_DIR, raw_filename env))
                          (w2\<lparr>files := (files w2)((TRENDS_DIR, raw_filename env)
                                                    \<mapsto> json_stringify env items)\<rparr>);
                   w5 = fst (analyzeHotList env items w4)
               in (case analysed env items of
                     Inl e \<Rightarrow> fail_run e w5
                   | Inr report \<Rightarrow>
                       (case write_error env (TRENDS_DIR, report_filename env) of
                          Some e \<Rightarrow> fail_run e w5
                        | None \<Rightarrow>
                            (console_log (LogSavedReport (TRENDS_DIR, report_filename env))
                               (w5\<lparr>files := (files w5)((TRENDS_DIR, report_filename env)
                                                        \<mapsto> report_content env report)\<rparr>),
                             Returned (TRENDS_DIR, report_filename env))))))"
  by (simp add: run_def split_beta fetchHotList_result analyzeHotList_result Let_def
      writeFileSync_def split: sum.splits option.splits)

text \<open>
  C5 (as amended). A run in which fetching the hot list throws ends the process with
  exit code 1 and leaves the files as they were. A run in which the analysis throws
  ends the process with exit code 1 as well, but the raw data of the run is written
  before the analysis starts, so that file stays behind; no report is written. Every run
  either exits with code 1 or returns the path of the report with both files written.
\<close>

theorem run_exits_on_throw:
  "(isl (hot_list env) \<longrightarrow>
      snd (run env w) = Exited 1 \<and> files (fst (run env w)) = files w)
   \<and> (\<forall>items. hot_list env = Inr items
          \<and> write_error env (TRENDS_DIR, raw_filename env) = None
          \<and> isl (analysed env items) \<longrightarrow>
        snd (run env w) = Exited 1
        \<and> files (fst (run env w))
            = (files w)((TRENDS_DIR, raw_filename env) \<mapsto> json_stringify env items))
   \<and> (snd (run env w) = Exited 1
        \<or> snd (run env w) = Returned (TRENDS_DIR, report_filename env)
          \<and> \<not> isl (hot_list env)
          \<and> files (fst (run env w)) (TRENDS_DIR, raw_filename env) \<noteq> None
          \<and> files (fst (run env w)) (TRENDS_DIR, report_filename env) \<noteq> None)"
proof -
  have a: "snd (run env w) = Exited 1 \<and> files (fst (run env w)) = files w"
    if "isl (hot_list env)"
    using that
    by (cases "hot_list env") (simp_all add: run_cases fail_run_def fetchHotList_files)
  have b: "snd (run env w) = Exited 1
        \<and> files (fst (run env w))
            = (files w)((TRENDS_DIR, raw_filename env) \<mapsto> json_stringify env items)"
    if "hot_list env = Inr items" "write_error env (TRENDS_DIR, raw_filename env) = None"
      "isl (analysed env items)" for items
    using that
    by (cases "analysed env items")
      (simp_all add: run_cases Let_def fail_run_def fetchHotList_files analyzeHotList_files)
  have c: "snd (run env w) = Exited 1
        \<or> snd (run env w) = Returned (TRENDS_DIR, report_filename env)
          \<and> \<not> isl (hot_list env)
          \<and> files (fst (run env w)) (TRENDS_DIR, raw_filename env) \<noteq> None
          \<and> files (fst (run env w)) (TRENDS_DIR, report_filename env) \<noteq> None"
    by (simp add: run_cases Let_def fail_run_def fetchHotList_files analyzeHotList_files
        split: sum.splits option.splits)
  from a b c show ?thesis by blast
qed

theorem run_exits_on_throw_witness:
  "isl (hot_list offline_env)
   \<and> snd (run offline_env empty_world) = Exited 1
   \<and> files (fst (run offline_env empty_world)) = Map.empty
   \<and> snd (run trend_env empty_world)
       = Returned (TRENDS_DIR, js ''tophub_analysis_2026-01-02T03-04-05-678Z.md'')"
proof -
  have h: "isl (hot_list offline_env)"
    by (simp add: hot_list_def fetchHotList_def Let_def eval_env)
  have z: "files empty_world = Map.empty" by (simp add: eval_env)
  have ok: "snd (run trend_env empty_world)
       = Returned (TRENDS_DIR, js ''tophub_analysis_2026-01-02T03-04-05-678Z.md'')"
    by (simp add: eval_trends writeFileSync_def console_log_def dashed_def Let_def eval_env eval_strings)
  show ?thesis
    using run_exits_on_throw[of offline_env empty_world] h z ok by simp
qed

text \<open>
  C5 as stated fails where the analysis throws: with the model endpoint down the run
  exits with code 1 and the raw data file it wrote before the analysis is left in the
  trends directory.
\<close>

theorem run_leaves_raw_file:
  "hot_list model_down_env = hot_list trend_env
   \<and> \<not> isl (hot_list model_down_env)
   \<and> (\<forall>items. analysed model_down_env items = Inl (Thrown 0))
   \<and> snd (run model_down_env empty_world) = Exited 1
   \<and> files empty_world (TRENDS_DIR, js ''tophub_hot_2026-01-02T03-04-05-678Z.json'') = None
   \<and> files (fst (run model_down_env empty_world))
        (TRENDS_DIR, js ''tophub_hot_2026-01-02T03-04-05-678Z.json'') = Some (js ''[{}, {}]'')"
  by (simp add: hot_list_def analysed_def eval_trends writeFileSync_def console_log_def dashed_def
      Let_def eval_env eval_strings)

end
